theory Spec2Isabelle
  imports Main "HOL-Library.Word"
begin

unbundle bit_operations_syntax

section \<open>ICMPv6 dispatch of the IPv6 endpoint (pkg/tcpip/network/ipv6/icmp.go)\<close>

text \<open>
  The development embeds \<open>handleControl\<close> and \<open>handleICMP\<close> of icmp.go. Both are
  methods that return nothing and act on their surroundings: they increment the ICMP
  statistics of the route, query the stack, and call the stack, the NUD handler, the
  transport dispatcher and the route. The model passes a \<open>State\<close> that holds the two
  groups of counters and the list of calls made so far, in order. What the stack answers
  to a query is read from a record of functions, \<open>Env\<close>.

  The packages icmp.go imports (\<open>header\<close>, \<open>buffer\<close>, \<open>stack\<close>,
  \<open>tcpip\<close>) lie outside this development: every definition that stands for a part
  of them says so in its comment.
\<close>

subsection \<open>Bytes, views, addresses\<close>

type_synonym byte = "8 word"
type_synonym View = "byte list"
type_synonym VectorisedView = "View list"
type_synonym Address = "byte list"
type_synonym LinkAddress = "byte list"
type_synonym NICID = "32 word"
type_synonym NetworkProtocolNumber = "32 word"
type_synonym TransportProtocolNumber = "32 word"

text \<open>\<open>binary.BigEndian\<close>: reading and writing 16 and 32 bit values.\<close>

definition Uint16 :: "byte \<Rightarrow> byte \<Rightarrow> 16 word" where
  "Uint16 a b = push_bit 8 (ucast a) OR ucast b"

definition Uint32 :: "byte \<Rightarrow> byte \<Rightarrow> byte \<Rightarrow> byte \<Rightarrow> 32 word" where
  "Uint32 a b c d =
     push_bit 24 (ucast a) OR push_bit 16 (ucast b) OR push_bit 8 (ucast c) OR ucast d"

definition PutUint16 :: "16 word \<Rightarrow> byte list" where
  "PutUint16 w = [ucast (drop_bit 8 w), ucast w]"

definition PutUint32 :: "32 word \<Rightarrow> byte list" where
  "PutUint32 w = [ucast (drop_bit 24 w), ucast (drop_bit 16 w), ucast (drop_bit 8 w), ucast w]"

text \<open>
  Go's builtin \<open>copy(dst, src)\<close> overwrites the first \<open>min (len dst) (len src)\<close> bytes
  of \<open>dst\<close>; the result is \<open>dst\<close> afterwards.
\<close>

definition copy :: "byte list \<Rightarrow> byte list \<Rightarrow> byte list" where
  "copy dst src = (let n = min (length dst) (length src) in take n src @ drop n dst)"

subsection \<open>buffer.VectorisedView and buffer.Prependable\<close>

text \<open>
  Modelled from the spec: package \<open>buffer\<close> is absent. Section 4.2 speaks of a payload
  that "may span multiple non-contiguous memory segments (the first segment is embedded
  in the message view itself)": a vectorised view is the list of its segments, \<open>First\<close>
  is the first segment (the nil view when there is none), \<open>RemoveFirst\<close> drops it,
  \<open>Size\<close> is the number of bytes in all of them, and \<open>TrimFront count\<close> takes
  \<open>count\<close> bytes off the front, across segments. \<open>Clone\<close> makes a shallow copy, which
  in a model without sharing is the value itself.
\<close>

definition First :: "VectorisedView \<Rightarrow> View" where
  "First vv = (case vv of [] \<Rightarrow> [] | v # _ \<Rightarrow> v)"

definition RemoveFirst :: "VectorisedView \<Rightarrow> VectorisedView" where
  "RemoveFirst vv = (case vv of [] \<Rightarrow> [] | _ # vs \<Rightarrow> vs)"

definition Size :: "VectorisedView \<Rightarrow> nat" where
  "Size vv = sum_list (map length vv)"

definition Clone :: "VectorisedView \<Rightarrow> VectorisedView" where
  "Clone vv = vv"

fun TrimFront :: "nat \<Rightarrow> VectorisedView \<Rightarrow> VectorisedView" where
  "TrimFront count [] = []"
| "TrimFront count (v # vs) =
     (if 0 < count
      then (if count < length v then drop count v # vs
            else TrimFront (count - length v) vs)
      else v # vs)"

text \<open>
  Modelled from the spec: \<open>buffer.Prependable\<close> is absent. It is the buffer an outgoing
  header is built in (the spec's "route/link-endpoint interface": \<open>MaxHeaderLength\<close>
  reserves the room for the lower layers): \<open>NewPrependable size\<close> allocates \<open>size\<close>
  zero bytes, all unused; \<open>Prepend size\<close> hands out the \<open>size\<close> bytes before the
  used part, or nil when fewer are left. The slice handed out is a window on the buffer:
  \<open>withView\<close> writes the bytes the caller has put there back into the buffer.
\<close>

record Prependable =
  buf :: View
  usedIdx :: nat

definition NewPrependable :: "nat \<Rightarrow> Prependable" where
  "NewPrependable size' = \<lparr>buf = replicate size' 0, usedIdx = size'\<rparr>"

definition Prepend :: "nat \<Rightarrow> Prependable \<Rightarrow> (Prependable \<times> View) option" where
  "Prepend size' p =
     (if usedIdx p < size' then None
      else Some (p\<lparr>usedIdx := usedIdx p - size'\<rparr>,
                 take size' (drop (usedIdx p - size') (buf p))))"

definition withView :: "Prependable \<Rightarrow> View \<Rightarrow> Prependable" where
  "withView p v =
     p\<lparr>buf := take (usedIdx p) (buf p) @ v @ drop (usedIdx p + length v) (buf p)\<rparr>"

definition UsedBytes :: "Prependable \<Rightarrow> View" where
  "UsedBytes p = drop (usedIdx p) (buf p)"

record PacketBuffer =
  Data :: VectorisedView
  Header :: Prependable

subsection \<open>Constants of package header\<close>

text \<open>
  Modelled from the spec: the constants of package \<open>header\<close> are absent. Their values
  follow the wire format of section 6 (RFC 4443, RFC 4861, RFC 8200): an ICMPv6 message
  is type (1 byte), code (1 byte), checksum (2 bytes) and a body; a Neighbor Solicitation
  body is 4 reserved bytes and a 16 byte target, a Neighbor Advertisement body a flags
  byte, 3 reserved bytes and a 16 byte target; a link-layer address option for an
  Ethernet address is 8 bytes. \<open>ICMPv6NeighborAdvertSize\<close> is the size the source
  uses for an advertisement with its one option: \<open>LinkAddressRequest\<close> writes an option
  at offsets 24 to 31 of a message of that size (\<open>icmpV6OptOffset\<close>,
  \<open>icmpV6LengthOffset\<close>).
\<close>

definition IPv6MinimumSize :: nat where "IPv6MinimumSize = 40"
definition IPv6AddressSize :: nat where "IPv6AddressSize = 16"
definition IPv6FragmentHeaderSize :: nat where "IPv6FragmentHeaderSize = 8"
definition IPv6FragmentHeader :: TransportProtocolNumber where "IPv6FragmentHeader = 44"
definition IPv6ProtocolNumber :: NetworkProtocolNumber where "IPv6ProtocolNumber = 0x86dd"
definition ProtocolNumber :: NetworkProtocolNumber where "ProtocolNumber = IPv6ProtocolNumber"
definition ICMPv6ProtocolNumber :: TransportProtocolNumber where "ICMPv6ProtocolNumber = 58"
definition NDPHopLimit :: byte where "NDPHopLimit = 255"
definition EthernetAddressSize :: nat where "EthernetAddressSize = 6"

definition IPv6Any :: Address where
  "IPv6Any = [0, 0, 0, 0, 0, 0, 0, 0, 0, 0, 0, 0, 0, 0, 0, 0]"

definition IPv6AllNodesMulticastAddress :: Address where
  "IPv6AllNodesMulticastAddress = [0xff, 0x02, 0, 0, 0, 0, 0, 0, 0, 0, 0, 0, 0, 0, 0, 0x01]"

definition ICMPv6HeaderSize :: nat where "ICMPv6HeaderSize = 4"
definition ICMPv6MinimumSize :: nat where "ICMPv6MinimumSize = 8"
definition NDPNSMinimumSize :: nat where "NDPNSMinimumSize = 20"
definition NDPNAMinimumSize :: nat where "NDPNAMinimumSize = 20"
definition NDPRSMinimumSize :: nat where "NDPRSMinimumSize = 4"
definition NDPRAMinimumSize :: nat where "NDPRAMinimumSize = 12"
definition NDPLinkLayerAddressSize :: nat where "NDPLinkLayerAddressSize = 8"

definition ICMPv6NeighborSolicitMinimumSize :: nat where
  "ICMPv6NeighborSolicitMinimumSize = ICMPv6HeaderSize + NDPNSMinimumSize"
definition ICMPv6NeighborAdvertMinimumSize :: nat where
  "ICMPv6NeighborAdvertMinimumSize = ICMPv6HeaderSize + NDPNAMinimumSize"
definition ICMPv6NeighborAdvertSize :: nat where
  "ICMPv6NeighborAdvertSize = ICMPv6HeaderSize + NDPNAMinimumSize + NDPLinkLayerAddressSize"
definition ICMPv6EchoMinimumSize :: nat where "ICMPv6EchoMinimumSize = 8"
definition ICMPv6DstUnreachableMinimumSize :: nat where
  "ICMPv6DstUnreachableMinimumSize = ICMPv6MinimumSize"
definition ICMPv6PacketTooBigMinimumSize :: nat where
  "ICMPv6PacketTooBigMinimumSize = ICMPv6MinimumSize"

definition ICMPv6DstUnreachable :: byte where "ICMPv6DstUnreachable = 1"
definition ICMPv6PacketTooBig :: byte where "ICMPv6PacketTooBig = 2"
definition ICMPv6TimeExceeded :: byte where "ICMPv6TimeExceeded = 3"
definition ICMPv6ParamProblem :: byte where "ICMPv6ParamProblem = 4"
definition ICMPv6EchoRequest :: byte where "ICMPv6EchoRequest = 128"
definition ICMPv6EchoReply :: byte where "ICMPv6EchoReply = 129"
definition ICMPv6RouterSolicit :: byte where "ICMPv6RouterSolicit = 133"
definition ICMPv6RouterAdvert :: byte where "ICMPv6RouterAdvert = 134"
definition ICMPv6NeighborSolicit :: byte where "ICMPv6NeighborSolicit = 135"
definition ICMPv6NeighborAdvert :: byte where "ICMPv6NeighborAdvert = 136"
definition ICMPv6RedirectMsg :: byte where "ICMPv6RedirectMsg = 137"
definition ICMPv6PortUnreachable :: byte where "ICMPv6PortUnreachable = 4"

text \<open>
  Modelled from the spec: \<open>stack.DefaultTOS\<close> is absent; section 4.6 has the replies
  sent with the "default traffic class", which is 0.
\<close>

definition DefaultTOS :: byte where "DefaultTOS = 0"

text \<open>The constants icmp.go declares itself.\<close>

definition ndpSolicitedFlag :: byte where "ndpSolicitedFlag = push_bit 6 1"
definition ndpOverrideFlag :: byte where "ndpOverrideFlag = push_bit 5 1"
definition ndpOptSrcLinkAddr :: byte where "ndpOptSrcLinkAddr = 1"
definition ndpOptDstLinkAddr :: byte where "ndpOptDstLinkAddr = 2"
definition icmpV6FlagOffset :: nat where "icmpV6FlagOffset = 4"
definition icmpV6OptOffset :: nat where "icmpV6OptOffset = 24"
definition icmpV6LengthOffset :: nat where "icmpV6LengthOffset = 25"

subsection \<open>Accessors of package header\<close>

text \<open>
  Modelled from the spec: the byte-view types \<open>header.IPv6\<close>, \<open>header.IPv6Fragment\<close>,
  \<open>header.ICMPv6\<close>, \<open>header.NDPNeighborSolicit\<close>, \<open>header.NDPNeighborAdvert\<close>,
  \<open>header.NDPRouterSolicit\<close> and \<open>header.NDPRouterAdvert\<close> are absent. Their
  accessors read the fields at the offsets of the wire format (section 6; for the IPv6
  header and the fragment header RFC 8200: next header at byte 6, hop limit at byte 7,
  source at 8, destination at 24; in the fragment header the next header at byte 0 and
  the 13 bit offset in the upper bits of bytes 2 and 3). An accessor is used only behind
  the length check the source makes before it.
\<close>

definition IPv6_HopLimit :: "View \<Rightarrow> byte" where
  "IPv6_HopLimit b = b ! 7"

definition IPv6_SourceAddress :: "View \<Rightarrow> Address" where
  "IPv6_SourceAddress b = take IPv6AddressSize (drop 8 b)"

definition IPv6_DestinationAddress :: "View \<Rightarrow> Address" where
  "IPv6_DestinationAddress b = take IPv6AddressSize (drop 24 b)"

definition IPv6_TransportProtocol :: "View \<Rightarrow> TransportProtocolNumber" where
  "IPv6_TransportProtocol b = ucast (b ! 6)"

definition IPv6Fragment_IsValid :: "View \<Rightarrow> bool" where
  "IPv6Fragment_IsValid b = (IPv6FragmentHeaderSize \<le> length b)"

definition IPv6Fragment_FragmentOffset :: "View \<Rightarrow> 16 word" where
  "IPv6Fragment_FragmentOffset b = drop_bit 3 (Uint16 (b ! 2) (b ! 3))"

definition IPv6Fragment_TransportProtocol :: "View \<Rightarrow> TransportProtocolNumber" where
  "IPv6Fragment_TransportProtocol b = ucast (b ! 0)"

definition ICMPv6_Type :: "View \<Rightarrow> byte" where
  "ICMPv6_Type b = b ! 0"

definition ICMPv6_SetType :: "View \<Rightarrow> byte \<Rightarrow> View" where
  "ICMPv6_SetType b t = b[0 := t]"

definition ICMPv6_Code :: "View \<Rightarrow> byte" where
  "ICMPv6_Code b = b ! 1"

definition ICMPv6_Checksum :: "View \<Rightarrow> 16 word" where
  "ICMPv6_Checksum b = Uint16 (b ! 2) (b ! 3)"

definition ICMPv6_SetChecksum :: "View \<Rightarrow> 16 word \<Rightarrow> View" where
  "ICMPv6_SetChecksum b c = b[2 := ucast (drop_bit 8 c), 3 := ucast c]"

definition ICMPv6_MTU :: "View \<Rightarrow> 32 word" where
  "ICMPv6_MTU b = Uint32 (b ! 4) (b ! 5) (b ! 6) (b ! 7)"

definition ICMPv6_NDPPayload :: "View \<Rightarrow> View" where
  "ICMPv6_NDPPayload b = drop ICMPv6HeaderSize b"

definition NDPNeighborSolicit_TargetAddress :: "View \<Rightarrow> Address" where
  "NDPNeighborSolicit_TargetAddress b = take IPv6AddressSize (drop 4 b)"

definition NDPNeighborSolicit_Options :: "View \<Rightarrow> View" where
  "NDPNeighborSolicit_Options b = drop NDPNSMinimumSize b"

definition NDPNeighborAdvert_TargetAddress :: "View \<Rightarrow> Address" where
  "NDPNeighborAdvert_TargetAddress b = take IPv6AddressSize (drop 4 b)"

definition NDPNeighborAdvert_SetTargetAddress :: "View \<Rightarrow> Address \<Rightarrow> View" where
  "NDPNeighborAdvert_SetTargetAddress b addr =
     take 4 b @ copy (take IPv6AddressSize (drop 4 b)) addr @ drop (4 + IPv6AddressSize) b"

definition NDPNeighborAdvert_RouterFlag :: "View \<Rightarrow> bool" where
  "NDPNeighborAdvert_RouterFlag b = (b ! 0 AND push_bit 7 1 \<noteq> 0)"

definition NDPNeighborAdvert_SolicitedFlag :: "View \<Rightarrow> bool" where
  "NDPNeighborAdvert_SolicitedFlag b = (b ! 0 AND ndpSolicitedFlag \<noteq> 0)"

definition NDPNeighborAdvert_OverrideFlag :: "View \<Rightarrow> bool" where
  "NDPNeighborAdvert_OverrideFlag b = (b ! 0 AND ndpOverrideFlag \<noteq> 0)"

definition NDPNeighborAdvert_SetSolicitedFlag :: "View \<Rightarrow> bool \<Rightarrow> View" where
  "NDPNeighborAdvert_SetSolicitedFlag b f =
     (if f then b[0 := b ! 0 OR ndpSolicitedFlag] else b[0 := b ! 0 AND NOT ndpSolicitedFlag])"

definition NDPNeighborAdvert_SetOverrideFlag :: "View \<Rightarrow> bool \<Rightarrow> View" where
  "NDPNeighborAdvert_SetOverrideFlag b f =
     (if f then b[0 := b ! 0 OR ndpOverrideFlag] else b[0 := b ! 0 AND NOT ndpOverrideFlag])"

definition NDPNeighborAdvert_Options :: "View \<Rightarrow> View" where
  "NDPNeighborAdvert_Options b = drop NDPNAMinimumSize b"

definition NDPRouterSolicit_Options :: "View \<Rightarrow> View" where
  "NDPRouterSolicit_Options b = drop NDPRSMinimumSize b"

definition NDPRouterAdvert_Options :: "View \<Rightarrow> View" where
  "NDPRouterAdvert_Options b = drop NDPRAMinimumSize b"

text \<open>
  Modelled from the spec: \<open>header.IsV6MulticastAddress\<close> and
  \<open>header.IsV6LinkLocalAddress\<close> are absent. A multicast address is a 16 byte address
  in ff00::/8, a link-local one a 16 byte address in fe80::/10 (RFC 4291).
\<close>

definition IsV6MulticastAddress :: "Address \<Rightarrow> bool" where
  "IsV6MulticastAddress addr = (length addr = IPv6AddressSize \<and> addr ! 0 = 0xff)"

definition IsV6LinkLocalAddress :: "Address \<Rightarrow> bool" where
  "IsV6LinkLocalAddress addr =
     (length addr = IPv6AddressSize \<and> addr ! 0 = 0xfe \<and> (addr ! 1) AND 0xc0 = 0x80)"

subsection \<open>The ICMPv6 checksum\<close>

text \<open>
  Modelled from the spec: \<open>header.Checksum\<close> and \<open>header.ICMPv6Checksum\<close> are absent.
  Section 6: "Checksum = standard IPv6 pseudo-header checksum (source addr, dest addr,
  upper-layer length, next-header = 58) over the full ICMPv6 message"; section 4.2: the
  segments after the first are treated with the message "as one logical byte stream".
  The standard checksum (RFC 1071) adds the 16 bit big-endian words of the data with
  end-around carry, a last odd byte padded with zero, and complements the sum; the
  checksum field itself (bytes 2 and 3 of the message) counts as zero.
\<close>

fun words16 :: "byte list \<Rightarrow> 16 word list" where
  "words16 [] = []"
| "words16 [a] = [Uint16 a 0]"
| "words16 (a # b # bs) = Uint16 a b # words16 bs"

definition onesAdd :: "16 word \<Rightarrow> 16 word \<Rightarrow> 16 word" where
  "onesAdd a b = (let s = unat a + unat b in of_nat (s mod 65536 + s div 65536))"

definition Checksum :: "byte list \<Rightarrow> 16 word \<Rightarrow> 16 word" where
  "Checksum b initial = foldl onesAdd initial (words16 b)"

definition ICMPv6Checksum :: "View \<Rightarrow> Address \<Rightarrow> Address \<Rightarrow> VectorisedView \<Rightarrow> 16 word" where
  "ICMPv6Checksum h src dst vv =
     (let xsum = Checksum src 0;
          xsum = Checksum dst xsum;
          xsum = Checksum (PutUint32 (of_nat (length h + Size vv))) xsum;
          xsum = Checksum [0, 0, 0, ucast ICMPv6ProtocolNumber] xsum
      in NOT (Checksum (h[2 := 0, 3 := 0] @ concat vv) xsum))"

subsection \<open>NDP options\<close>

text \<open>
  Modelled from the spec: \<open>header.NDPOptions\<close>, its iterator and its serializer are
  absent. Section 3: an option is "a tagged union over recognized kinds
  {Source-Link-Layer-Address, Target-Link-Layer-Address, others ignored}"; section 6:
  "NDP option = {type: 1 byte, length-in-8-byte-units: 1 byte, type-specific data padded
  to length*8 bytes}; Source/Target-Link-Layer-Address options carry a 6-byte Ethernet
  address at a fixed offset"; section 4.1: "Each step returns exactly one of {next
  option, clean-end, malformed}", the errors are "malformed length or truncated option",
  and "Unknown option types are skipped, not errored". The option types are the ones
  icmp.go names \<open>ndpOptSrcLinkAddr\<close> and \<open>ndpOptDstLinkAddr\<close>. An option holds the
  bytes after its type and length.
\<close>

datatype NDPOption =
  NDPSourceLinkLayerAddressOption View
| NDPTargetLinkLayerAddressOption View

datatype NDPOptError = ErrMalformedLength | ErrTruncatedOption

type_synonym NDPOptionIterator = View

definition EthernetAddress :: "View \<Rightarrow> LinkAddress" where
  "EthernetAddress body =
     (if EthernetAddressSize \<le> length body then take EthernetAddressSize body else [])"

text \<open>
  One step of the iterator, on the bytes not yet read: \<open>Inl\<close> is malformed,
  \<open>Inr None\<close> the clean end, \<open>Inr (Some (opt, it))\<close> the next option and the
  iterator after it.
\<close>

function Next :: "NDPOptionIterator \<Rightarrow> NDPOptError + (NDPOption \<times> NDPOptionIterator) option" where
  "Next [] = Inr None"
| "Next [t] = Inl ErrTruncatedOption"
| "Next (t # l # rest) =
     (if l = 0 then Inl ErrMalformedLength
      else let numBodyBytes = unat l * 8 - 2 in
        if length rest < numBodyBytes then Inl ErrTruncatedOption
        else if t = ndpOptSrcLinkAddr
          then Inr (Some (NDPSourceLinkLayerAddressOption (take numBodyBytes rest),
                          drop numBodyBytes rest))
        else if t = ndpOptDstLinkAddr
          then Inr (Some (NDPTargetLinkLayerAddressOption (take numBodyBytes rest),
                          drop numBodyBytes rest))
        else Next (drop numBodyBytes rest))"
  by pat_completeness auto
termination
  by (relation "measure length") auto

definition NDPOption_Type :: "NDPOption \<Rightarrow> byte" where
  "NDPOption_Type opt =
     (case opt of NDPSourceLinkLayerAddressOption _ \<Rightarrow> ndpOptSrcLinkAddr
                | NDPTargetLinkLayerAddressOption _ \<Rightarrow> ndpOptDstLinkAddr)"

definition NDPOption_body :: "NDPOption \<Rightarrow> View" where
  "NDPOption_body opt =
     (case opt of NDPSourceLinkLayerAddressOption b \<Rightarrow> b
                | NDPTargetLinkLayerAddressOption b \<Rightarrow> b)"

definition paddedLength :: "NDPOption \<Rightarrow> nat" where
  "paddedLength opt = 8 * ((length (NDPOption_body opt) + 2 + 7) div 8)"

definition serializeOption :: "NDPOption \<Rightarrow> View" where
  "serializeOption opt =
     [NDPOption_Type opt, of_nat (paddedLength opt div 8)] @ NDPOption_body opt
       @ replicate (paddedLength opt - 2 - length (NDPOption_body opt)) 0"

definition NDPOptionsSerializer_Length :: "NDPOption list \<Rightarrow> nat" where
  "NDPOptionsSerializer_Length s = sum_list (map paddedLength s)"

text \<open>
  \<open>Serialize\<close> writes the options into the option area \<open>b\<close> of a message under
  construction; an area too short for them is an index out of range (\<open>None\<close>).
\<close>

definition NDPOptions_Serialize :: "View \<Rightarrow> NDPOption list \<Rightarrow> View option" where
  "NDPOptions_Serialize b s =
     (let bytes = concat (map serializeOption s)
      in if length b < length bytes then None else Some (bytes @ drop (length bytes) b))"

subsection \<open>Statistics, collaborators and state\<close>

text \<open>
  \<open>tcpip.ICMPv6PacketStats\<close> with its two extensions: the counters per message type,
  \<open>Dropped\<close> for the sent side and \<open>Invalid\<close> for the received side. A counter is
  a 64 bit value and \<open>Increment\<close> adds one.
\<close>

record ICMPv6PacketStats =
  EchoRequest :: "64 word"
  EchoReply :: "64 word"
  DstUnreachable :: "64 word"
  PacketTooBig :: "64 word"
  TimeExceeded :: "64 word"
  ParamProblem :: "64 word"
  RouterSolicit :: "64 word"
  RouterAdvert :: "64 word"
  NeighborSolicit :: "64 word"
  NeighborAdvert :: "64 word"
  RedirectMsg :: "64 word"

record ICMPv6SentPacketStats = ICMPv6PacketStats +
  Dropped :: "64 word"

record ICMPv6ReceivedPacketStats = ICMPv6PacketStats +
  Invalid :: "64 word"

definition Increment :: "64 word \<Rightarrow> 64 word" where
  "Increment c = c + 1"

record Route =
  LocalAddress :: Address
  RemoteAddress :: Address
  LocalLinkAddress :: LinkAddress
  RemoteLinkAddress :: LinkAddress
  NICID :: NICID
  MaxHeaderLength :: "16 word"
  DefaultTTL :: byte

record endpoint =
  nicID :: NICID
  id_LocalAddress :: Address

record NetworkHeaderParams =
  Protocol :: TransportProtocolNumber
  TTL :: byte
  TOS :: byte

record ReachabilityConfirmationFlags =
  Solicited :: bool
  Override :: bool
  IsRouter :: bool

datatype ControlType = ControlPacketTooBig | ControlPortUnreachable

type_synonym Error = string

text \<open>
  The calls handleICMP and handleControl make on their collaborators: the stack
  (\<open>DupTentativeAddrDetected\<close>, \<open>HandleNDPRA\<close>), the NUD handler (\<open>HandleProbe\<close>,
  \<open>HandleConfirmation\<close>), the transport dispatcher (the two \<open>Deliver\<close> calls) and the
  route (\<open>WritePacket\<close>), each with its arguments.
\<close>

datatype Call =
  DupTentativeAddrDetected NICID Address
| HandleNDPRA NICID Address View
| HandleProbe Address Address NetworkProtocolNumber LinkAddress
| HandleConfirmation Address LinkAddress ReachabilityConfirmationFlags
| DeliverTransportControlPacket Address Address NetworkProtocolNumber
    TransportProtocolNumber ControlType "32 word" PacketBuffer
| DeliverTransportPacket Route TransportProtocolNumber PacketBuffer
| WritePacket Route NetworkHeaderParams PacketBuffer

text \<open>
  What the surroundings answer. \<open>IsAddrTentative\<close>, \<open>CheckLocalAddress\<close> and
  \<open>Forwarding\<close> are the stack's queries, \<open>WritePacket_err\<close> is the error
  \<open>Route.WritePacket\<close> returns (\<open>None\<close> for nil). \<open>calculateMTU\<close> is a function of
  the ipv6 package that icmp.go calls and does not define. \<open>Iter\<close> is
  \<open>header.NDPOptions.Iter\<close>: the source tests the error it returns at every call, and
  the spec does not say what its boolean asks for, so what it returns is left to the
  environment.
\<close>

record Env =
  IsAddrTentative :: "NICID \<Rightarrow> Address \<Rightarrow> Error + bool"
  CheckLocalAddress :: "NICID \<Rightarrow> NetworkProtocolNumber \<Rightarrow> Address \<Rightarrow> NICID"
  Forwarding :: bool
  WritePacket_err :: "Route \<Rightarrow> NetworkHeaderParams \<Rightarrow> PacketBuffer \<Rightarrow> Error option"
  calculateMTU :: "32 word \<Rightarrow> 32 word"
  Iter :: "bool \<Rightarrow> View \<Rightarrow> NDPOptError + NDPOptionIterator"

record State =
  V6PacketsSent :: ICMPv6SentPacketStats
  V6PacketsReceived :: ICMPv6ReceivedPacketStats
  calls :: "Call list"

definition received ::
  "((64 word \<Rightarrow> 64 word) \<Rightarrow> ICMPv6ReceivedPacketStats \<Rightarrow> ICMPv6ReceivedPacketStats)
     \<Rightarrow> State \<Rightarrow> State" where
  "received counter st = st\<lparr>V6PacketsReceived := counter Increment (V6PacketsReceived st)\<rparr>"

definition sent ::
  "((64 word \<Rightarrow> 64 word) \<Rightarrow> ICMPv6SentPacketStats \<Rightarrow> ICMPv6SentPacketStats)
     \<Rightarrow> State \<Rightarrow> State" where
  "sent counter st = st\<lparr>V6PacketsSent := counter Increment (V6PacketsSent st)\<rparr>"

definition call :: "Call \<Rightarrow> State \<Rightarrow> State" where
  "call c st = st\<lparr>calls := calls st @ [c]\<rparr>"

text \<open>
  A run-time panic of the Go code: an index or a slice bound out of range, or a write
  through the nil slice a failed \<open>Prepend\<close> returns.
\<close>

datatype Panic = IndexOutOfRange

subsection \<open>handleControl\<close>

definition handleControl :: "endpoint \<Rightarrow> ControlType \<Rightarrow> 32 word \<Rightarrow> PacketBuffer \<Rightarrow> State \<Rightarrow> State" where
  "handleControl e typ extra pkt st =
     (let h = First (Data pkt) in
      if length h < IPv6MinimumSize \<or> IPv6_SourceAddress h \<noteq> id_LocalAddress e then st
      else
        let data1 = TrimFront IPv6MinimumSize (Data pkt);
            p = IPv6_TransportProtocol h
        in if p = IPv6FragmentHeader
           then
             (let f = First data1 in
              if \<not> IPv6Fragment_IsValid f \<or> IPv6Fragment_FragmentOffset f \<noteq> 0 then st
              else
                let data2 = TrimFront IPv6FragmentHeaderSize data1;
                    p' = IPv6Fragment_TransportProtocol f
                in call (DeliverTransportControlPacket (id_LocalAddress e)
                           (IPv6_DestinationAddress h) ProtocolNumber p' typ extra
                           (pkt\<lparr>Data := data2\<rparr>)) st)
           else call (DeliverTransportControlPacket (id_LocalAddress e)
                        (IPv6_DestinationAddress h) ProtocolNumber p typ extra
                        (pkt\<lparr>Data := data1\<rparr>)) st)"

subsection \<open>handleICMP\<close>

text \<open>The closure \<open>isNDPValid\<close> of handleICMP, over \<open>hasFragmentHeader\<close>, \<open>iph\<close> and \<open>h\<close>.\<close>

definition isNDPValid :: "bool \<Rightarrow> View \<Rightarrow> View \<Rightarrow> bool" where
  "isNDPValid hasFragmentHeader iph h =
     (\<not> hasFragmentHeader \<and> IPv6_HopLimit iph = NDPHopLimit \<and> ICMPv6_Code h = 0)"

lemma Next_shorter:
  "Next it = Inr (Some (opt, it')) \<Longrightarrow> length it' < length it"
  by (induction it rule: Next.induct) (auto simp: Let_def split: if_splits)

text \<open>
  The option loop of the Neighbor Solicitation arm (lines 177 to 200). \<open>None\<close> stands
  for its two exits that count the packet as invalid and return; \<open>Some\<close> is
  \<open>sourceLinkAddr\<close> after the loop.
\<close>

function nsOptions :: "NDPOptionIterator \<Rightarrow> LinkAddress \<Rightarrow> LinkAddress option" where
  "nsOptions it sourceLinkAddr =
     (case Next it of
        Inl err \<Rightarrow> None
      | Inr None \<Rightarrow> Some sourceLinkAddr
      | Inr (Some (opt, it')) \<Rightarrow>
          (case opt of
             NDPSourceLinkLayerAddressOption b \<Rightarrow>
               if length sourceLinkAddr \<noteq> 0 then None
               else nsOptions it' (EthernetAddress b)
           | NDPTargetLinkLayerAddressOption b \<Rightarrow> nsOptions it' sourceLinkAddr))"
  by pat_completeness auto
termination
  by (relation "measure (\<lambda>(it, a). length it)") (auto dest: Next_shorter)

text \<open>
  The reply to a Neighbor Solicitation (lines 229 to 280). \<open>Route_Clone\<close> copies the
  route, so that the caller's route stays as it is; \<open>Release\<close> of the copy has no
  effect on what is modelled.
\<close>

definition Route_Clone :: "Route \<Rightarrow> Route" where
  "Route_Clone r = r"

definition neighborAdvertReply ::
  "Env \<Rightarrow> Route \<Rightarrow> Address \<Rightarrow> bool \<Rightarrow> LinkAddress \<Rightarrow> State \<Rightarrow> Panic + State" where
  "neighborAdvertReply env r0 targetAddr unspecifiedSource sourceLinkAddr st =
     (let r = (Route_Clone r0)\<lparr>LocalAddress := targetAddr\<rparr>;
          solicited = (if unspecifiedSource then False else True);
          r = (if unspecifiedSource then r\<lparr>RemoteAddress := IPv6AllNodesMulticastAddress\<rparr> else r);
          r = (if length sourceLinkAddr \<noteq> 0 then r\<lparr>RemoteLinkAddress := sourceLinkAddr\<rparr> else r);
          optsSerializer = [NDPTargetLinkLayerAddressOption (LocalLinkAddress r)];
          hdr = NewPrependable (unat (MaxHeaderLength r) + ICMPv6NeighborAdvertMinimumSize
                                + NDPOptionsSerializer_Length optsSerializer)
      in case Prepend ICMPv6NeighborAdvertSize hdr of
           None \<Rightarrow> Inl IndexOutOfRange
         | Some (hdr, packet) \<Rightarrow>
             let packet = ICMPv6_SetType packet ICMPv6NeighborAdvert;
                 na = ICMPv6_NDPPayload packet;
                 na = NDPNeighborAdvert_SetSolicitedFlag na solicited;
                 na = NDPNeighborAdvert_SetOverrideFlag na True;
                 na = NDPNeighborAdvert_SetTargetAddress na targetAddr
             in case NDPOptions_Serialize (NDPNeighborAdvert_Options na) optsSerializer of
                  None \<Rightarrow> Inl IndexOutOfRange
                | Some opts \<Rightarrow>
                    let na = take NDPNAMinimumSize na @ opts;
                        packet = take ICMPv6HeaderSize packet @ na;
                        packet = ICMPv6_SetChecksum packet
                                   (ICMPv6Checksum packet (LocalAddress r) (RemoteAddress r) []);
                        params = \<lparr>Protocol = ICMPv6ProtocolNumber, TTL = NDPHopLimit, TOS = DefaultTOS\<rparr>;
                        out = \<lparr>Data = [], Header = withView hdr packet\<rparr>;
                        st = call (WritePacket r params out) st
                    in case WritePacket_err env r params out of
                         Some err \<Rightarrow> Inr (sent Dropped_update st)
                       | None \<Rightarrow> Inr (sent NeighborAdvert_update st))"

definition caseNeighborSolicit ::
  "Env \<Rightarrow> endpoint \<Rightarrow> Route \<Rightarrow> View \<Rightarrow> View \<Rightarrow> bool \<Rightarrow> State \<Rightarrow> Panic + State" where
  "caseNeighborSolicit env e r iph h hasFragmentHeader st0 =
     (let st = received NeighborSolicit_update st0 in
      if length h < ICMPv6NeighborSolicitMinimumSize \<or> \<not> isNDPValid hasFragmentHeader iph h
      then Inr (received Invalid_update st)
      else
        let ns = ICMPv6_NDPPayload h;
            targetAddr = NDPNeighborSolicit_TargetAddress ns
        in case IsAddrTentative env (nicID e) targetAddr of
             Inl err \<Rightarrow> Inr st
           | Inr True \<Rightarrow>
               Inr (if RemoteAddress r = IPv6Any
                    then call (DupTentativeAddrDetected (nicID e) targetAddr) st
                    else st)
           | Inr False \<Rightarrow>
               if CheckLocalAddress env (nicID e) ProtocolNumber targetAddr = 0 then Inr st
               else
                 (case Iter env False (NDPNeighborSolicit_Options ns) of
                    Inl err \<Rightarrow> Inr (received Invalid_update st)
                  | Inr it \<Rightarrow>
                      (case nsOptions it [] of
                         None \<Rightarrow> Inr (received Invalid_update st)
                       | Some sourceLinkAddr \<Rightarrow>
                           let unspecifiedSource = (RemoteAddress r = IPv6Any) in
                           if length sourceLinkAddr = 0
                           then (if IsV6MulticastAddress (LocalAddress r) \<and> \<not> unspecifiedSource
                                 then Inr (received Invalid_update st)
                                 else neighborAdvertReply env r targetAddr unspecifiedSource
                                        sourceLinkAddr st)
                           else if unspecifiedSource then Inr (received Invalid_update st)
                           else neighborAdvertReply env r targetAddr unspecifiedSource
                                  sourceLinkAddr
                                  (call (HandleProbe (RemoteAddress r) (LocalAddress r)
                                           IPv6ProtocolNumber sourceLinkAddr) st))))"

text \<open>The option loop of the Neighbor Advertisement arm (lines 333 to 353).\<close>

function naOptions :: "NDPOptionIterator \<Rightarrow> Address \<Rightarrow> View \<Rightarrow> State \<Rightarrow> State" where
  "naOptions it targetAddr na st =
     (case Next it of
        Inl err \<Rightarrow> received Invalid_update st
      | Inr None \<Rightarrow> st
      | Inr (Some (opt, it')) \<Rightarrow>
          (case opt of
             NDPTargetLinkLayerAddressOption b \<Rightarrow>
               naOptions it' targetAddr na
                 (call (HandleConfirmation targetAddr (EthernetAddress b)
                          \<lparr>Solicited = NDPNeighborAdvert_SolicitedFlag na,
                           Override = NDPNeighborAdvert_OverrideFlag na,
                           IsRouter = NDPNeighborAdvert_RouterFlag na\<rparr>) st)
           | NDPSourceLinkLayerAddressOption b \<Rightarrow> naOptions it' targetAddr na st))"
  by pat_completeness auto
termination
  by (relation "measure (\<lambda>(it, t, na, st). length it)") (auto dest: Next_shorter)

definition caseNeighborAdvert ::
  "Env \<Rightarrow> Route \<Rightarrow> View \<Rightarrow> View \<Rightarrow> bool \<Rightarrow> State \<Rightarrow> State" where
  "caseNeighborAdvert env r iph h hasFragmentHeader st0 =
     (let st = received NeighborAdvert_update st0 in
      if length h < ICMPv6NeighborAdvertSize \<or> \<not> isNDPValid hasFragmentHeader iph h
      then received Invalid_update st
      else
        let na = ICMPv6_NDPPayload h in
        case Iter env True (NDPNeighborAdvert_Options na) of
          Inl err \<Rightarrow> received Invalid_update st
        | Inr it \<Rightarrow>
            let targetAddr = NDPNeighborAdvert_TargetAddress na;
                rxNICID = NICID r
            in case IsAddrTentative env rxNICID targetAddr of
                 Inl err \<Rightarrow> st
               | Inr True \<Rightarrow> call (DupTentativeAddrDetected rxNICID targetAddr) st
               | Inr False \<Rightarrow> naOptions it targetAddr na st)"

definition caseEchoRequest ::
  "Env \<Rightarrow> Route \<Rightarrow> View \<Rightarrow> PacketBuffer \<Rightarrow> State \<Rightarrow> Panic + State" where
  "caseEchoRequest env r h pkt st0 =
     (let st = received EchoRequest_update st0 in
      if length h < ICMPv6EchoMinimumSize then Inr (received Invalid_update st)
      else
        let data = TrimFront ICMPv6EchoMinimumSize (Data pkt);
            hdr = NewPrependable (unat (MaxHeaderLength r) + ICMPv6EchoMinimumSize)
        in case Prepend ICMPv6EchoMinimumSize hdr of
             None \<Rightarrow> Inl IndexOutOfRange
           | Some (hdr, packet) \<Rightarrow>
               let packet = copy packet h;
                   packet = ICMPv6_SetType packet ICMPv6EchoReply;
                   packet = ICMPv6_SetChecksum packet
                              (ICMPv6Checksum packet (LocalAddress r) (RemoteAddress r) data);
                   params = \<lparr>Protocol = ICMPv6ProtocolNumber, TTL = DefaultTTL r, TOS = DefaultTOS\<rparr>;
                   out = \<lparr>Data = data, Header = withView hdr packet\<rparr>;
                   st = call (WritePacket r params out) st
               in case WritePacket_err env r params out of
                    Some err \<Rightarrow> Inr (sent Dropped_update st)
                  | None \<Rightarrow> Inr (sent EchoReply_update st))"

text \<open>The option loop of the Router Solicitation arm (lines 430 to 455).\<close>

function rsOptions :: "NDPOptionIterator \<Rightarrow> View \<Rightarrow> Route \<Rightarrow> State \<Rightarrow> State" where
  "rsOptions it iph r st =
     (case Next it of
        Inl err \<Rightarrow> received Invalid_update st
      | Inr None \<Rightarrow> st
      | Inr (Some (opt, it')) \<Rightarrow>
          (case opt of
             NDPSourceLinkLayerAddressOption b \<Rightarrow>
               let sourceAddr = IPv6_SourceAddress iph in
               if length sourceAddr = 0 then st
               else rsOptions it' iph r
                      (call (HandleProbe sourceAddr (LocalAddress r) IPv6ProtocolNumber
                               (EthernetAddress b)) st)
           | NDPTargetLinkLayerAddressOption b \<Rightarrow> rsOptions it' iph r st))"
  by pat_completeness auto
termination
  by (relation "measure (\<lambda>(it, iph, r, st). length it)") (auto dest: Next_shorter)

definition caseRouterSolicit ::
  "Env \<Rightarrow> Route \<Rightarrow> View \<Rightarrow> View \<Rightarrow> bool \<Rightarrow> State \<Rightarrow> State" where
  "caseRouterSolicit env r iph h hasFragmentHeader st0 =
     (let st = received RouterSolicit_update st0 in
      if \<not> isNDPValid hasFragmentHeader iph h then received Invalid_update st
      else if \<not> Forwarding env then received Invalid_update st
      else
        let p = ICMPv6_NDPPayload h in
        if length p < NDPRSMinimumSize then received Invalid_update st
        else
          let rs = p in
          case Iter env False (NDPRouterSolicit_Options rs) of
            Inl err \<Rightarrow> received Invalid_update st
          | Inr it \<Rightarrow> rsOptions it iph r st)"

text \<open>The option loop of the Router Advertisement arm (lines 504 to 519).\<close>

function raOptions :: "NDPOptionIterator \<Rightarrow> Address \<Rightarrow> Route \<Rightarrow> State \<Rightarrow> State" where
  "raOptions it routerAddr r st =
     (case Next it of
        Inl err \<Rightarrow> received Invalid_update st
      | Inr None \<Rightarrow> st
      | Inr (Some (opt, it')) \<Rightarrow>
          (case opt of
             NDPSourceLinkLayerAddressOption b \<Rightarrow>
               raOptions it' routerAddr r
                 (call (HandleProbe routerAddr (LocalAddress r) IPv6ProtocolNumber
                          (EthernetAddress b)) st)
           | NDPTargetLinkLayerAddressOption b \<Rightarrow> raOptions it' routerAddr r st))"
  by pat_completeness auto
termination
  by (relation "measure (\<lambda>(it, a, r, st). length it)") (auto dest: Next_shorter)

definition caseRouterAdvert ::
  "Env \<Rightarrow> Route \<Rightarrow> View \<Rightarrow> View \<Rightarrow> bool \<Rightarrow> State \<Rightarrow> State" where
  "caseRouterAdvert env r iph h hasFragmentHeader st0 =
     (let st = received RouterAdvert_update st0;
          p = ICMPv6_NDPPayload h
      in if length p < NDPRAMinimumSize \<or> \<not> isNDPValid hasFragmentHeader iph h
         then received Invalid_update st
         else
           let routerAddr = IPv6_SourceAddress iph in
           if \<not> IsV6LinkLocalAddress routerAddr then received Invalid_update st
           else
             let ra = p in
             case Iter env False (NDPRouterAdvert_Options ra) of
               Inl err \<Rightarrow> received Invalid_update st
             | Inr it \<Rightarrow>
                 let rxNICID = NICID r;
                     st = call (HandleNDPRA rxNICID routerAddr ra) st
                 in raOptions it routerAddr r st)"

definition casePacketTooBig :: "Env \<Rightarrow> endpoint \<Rightarrow> View \<Rightarrow> PacketBuffer \<Rightarrow> State \<Rightarrow> State" where
  "casePacketTooBig env e h pkt st0 =
     (let st = received PacketTooBig_update st0 in
      if length h < ICMPv6PacketTooBigMinimumSize then received Invalid_update st
      else
        let pkt = pkt\<lparr>Data := TrimFront ICMPv6PacketTooBigMinimumSize (Data pkt)\<rparr>;
            mtu = ICMPv6_MTU h
        in handleControl e ControlPacketTooBig (calculateMTU env mtu) pkt st)"

definition caseDstUnreachable :: "endpoint \<Rightarrow> View \<Rightarrow> PacketBuffer \<Rightarrow> State \<Rightarrow> State" where
  "caseDstUnreachable e h pkt st0 =
     (let st = received DstUnreachable_update st0 in
      if length h < ICMPv6DstUnreachableMinimumSize then received Invalid_update st
      else
        let pkt = pkt\<lparr>Data := TrimFront ICMPv6DstUnreachableMinimumSize (Data pkt)\<rparr>
        in if ICMPv6_Code h = ICMPv6PortUnreachable
           then handleControl e ControlPortUnreachable 0 pkt st
           else st)"

definition caseEchoReply :: "Route \<Rightarrow> View \<Rightarrow> PacketBuffer \<Rightarrow> State \<Rightarrow> State" where
  "caseEchoReply r h pkt st0 =
     (let st = received EchoReply_update st0 in
      if length h < ICMPv6EchoMinimumSize then received Invalid_update st
      else call (DeliverTransportPacket r ICMPv6ProtocolNumber pkt) st)"

definition caseRedirectMsg :: "View \<Rightarrow> View \<Rightarrow> bool \<Rightarrow> State \<Rightarrow> State" where
  "caseRedirectMsg iph h hasFragmentHeader st0 =
     (let st = received RedirectMsg_update st0 in
      if \<not> isNDPValid hasFragmentHeader iph h then received Invalid_update st else st)"

text \<open>
  handleICMP (lines 63 to 547): the two checks every message goes through, then the
  switch on the type, its cases in the order of the source. \<open>netHeader\<close> is read as an
  IPv6 header from line 82 on; one that is shorter than an IPv6 header is a slice out
  of range there.
\<close>

definition handleICMP ::
  "Env \<Rightarrow> endpoint \<Rightarrow> Route \<Rightarrow> View \<Rightarrow> PacketBuffer \<Rightarrow> bool \<Rightarrow> State \<Rightarrow> Panic + State" where
  "handleICMP env e r netHeader pkt hasFragmentHeader st =
     (let v = First (Data pkt) in
      if length v < ICMPv6MinimumSize then Inr (received Invalid_update st)
      else if length netHeader < IPv6MinimumSize then Inl IndexOutOfRange
      else
        let h = v;
            iph = netHeader;
            payload = RemoveFirst (Clone (Data pkt))
        in if ICMPv6_Checksum h
                \<noteq> ICMPv6Checksum h (IPv6_SourceAddress iph) (IPv6_DestinationAddress iph) payload
           then Inr (received Invalid_update st)
           else if ICMPv6_Type h = ICMPv6PacketTooBig
             then Inr (casePacketTooBig env e h pkt st)
           else if ICMPv6_Type h = ICMPv6DstUnreachable
             then Inr (caseDstUnreachable e h pkt st)
           else if ICMPv6_Type h = ICMPv6NeighborSolicit
             then caseNeighborSolicit env e r iph h hasFragmentHeader st
           else if ICMPv6_Type h = ICMPv6NeighborAdvert
             then Inr (caseNeighborAdvert env r iph h hasFragmentHeader st)
           else if ICMPv6_Type h = ICMPv6EchoRequest
             then caseEchoRequest env r h pkt st
           else if ICMPv6_Type h = ICMPv6EchoReply
             then Inr (caseEchoReply r h pkt st)
           else if ICMPv6_Type h = ICMPv6TimeExceeded
             then Inr (received TimeExceeded_update st)
           else if ICMPv6_Type h = ICMPv6ParamProblem
             then Inr (received ParamProblem_update st)
           else if ICMPv6_Type h = ICMPv6RouterSolicit
             then Inr (caseRouterSolicit env r iph h hasFragmentHeader st)
           else if ICMPv6_Type h = ICMPv6RouterAdvert
             then Inr (caseRouterAdvert env r iph h hasFragmentHeader st)
           else if ICMPv6_Type h = ICMPv6RedirectMsg
             then Inr (caseRedirectMsg iph h hasFragmentHeader st)
           else Inr (received Invalid_update st))"

section \<open>Notions the statements use\<close>

text \<open>
  The test of line 82: the checksum field of the message against the checksum computed
  over the message and the segments after the first.
\<close>

definition checksumValid :: "View \<Rightarrow> PacketBuffer \<Rightarrow> bool" where
  "checksumValid netHeader pkt =
     (ICMPv6_Checksum (First (Data pkt))
        = ICMPv6Checksum (First (Data pkt)) (IPv6_SourceAddress netHeader)
            (IPv6_DestinationAddress netHeader) (RemoveFirst (Clone (Data pkt))))"

text \<open>
  A message reaches the switch on its type when it has the global minimum size, comes
  with a whole IPv6 header and carries the right checksum.
\<close>

definition reachesSwitch :: "View \<Rightarrow> PacketBuffer \<Rightarrow> bool" where
  "reachesSwitch netHeader pkt =
     (ICMPv6MinimumSize \<le> length (First (Data pkt))
      \<and> IPv6MinimumSize \<le> length netHeader
      \<and> checksumValid netHeader pkt)"

text \<open>
  The size each case of the switch asks of the message before it reads the body (for
  the router messages the size it asks of the NDP payload, plus the header); 0 for the
  types whose case asks for none.
\<close>

definition minimumSizeOf :: "byte \<Rightarrow> nat" where
  "minimumSizeOf t =
     (if t = ICMPv6PacketTooBig then ICMPv6PacketTooBigMinimumSize
      else if t = ICMPv6DstUnreachable then ICMPv6DstUnreachableMinimumSize
      else if t = ICMPv6NeighborSolicit then ICMPv6NeighborSolicitMinimumSize
      else if t = ICMPv6NeighborAdvert then ICMPv6NeighborAdvertSize
      else if t = ICMPv6EchoRequest then ICMPv6EchoMinimumSize
      else if t = ICMPv6EchoReply then ICMPv6EchoMinimumSize
      else if t = ICMPv6RouterSolicit then ICMPv6HeaderSize + NDPRSMinimumSize
      else if t = ICMPv6RouterAdvert then ICMPv6HeaderSize + NDPRAMinimumSize
      else 0)"

text \<open>
  The options an iterator yields until it stops, at the clean end or at the first
  malformed step, and whether it stops at the clean end.
\<close>

function optionsOf :: "NDPOptionIterator \<Rightarrow> NDPOption list" where
  "optionsOf it =
     (case Next it of
        Inl err \<Rightarrow> []
      | Inr None \<Rightarrow> []
      | Inr (Some (opt, it')) \<Rightarrow> opt # optionsOf it')"
  by pat_completeness auto
termination
  by (relation "measure length") (auto dest: Next_shorter)

function wellFormed :: "NDPOptionIterator \<Rightarrow> bool" where
  "wellFormed it =
     (case Next it of
        Inl err \<Rightarrow> False
      | Inr None \<Rightarrow> True
      | Inr (Some (opt, it')) \<Rightarrow> wellFormed it')"
  by pat_completeness auto
termination
  by (relation "measure length") (auto dest: Next_shorter)

fun sourceLinkAddrs :: "NDPOption list \<Rightarrow> LinkAddress list" where
  "sourceLinkAddrs [] = []"
| "sourceLinkAddrs (NDPSourceLinkLayerAddressOption b # opts) =
     EthernetAddress b # sourceLinkAddrs opts"
| "sourceLinkAddrs (NDPTargetLinkLayerAddressOption b # opts) = sourceLinkAddrs opts"


section \<open>Example inputs\<close>

text \<open>
  Two link-local nodes A (fe80::1, the receiving endpoint) and B (fe80::2), a global
  address G (2001:db8::2), the solicited-node multicast address of A and the
  all-routers address; an environment in which nothing is tentative, every address is
  owned by the asking NIC, forwarding is on, every write succeeds and \<open>Iter\<close> starts
  the iterator on the option area it is given.
\<close>

definition addrA :: Address where
  "addrA = [0xfe, 0x80, 0, 0, 0, 0, 0, 0, 0, 0, 0, 0, 0, 0, 0, 1]"

definition addrB :: Address where
  "addrB = [0xfe, 0x80, 0, 0, 0, 0, 0, 0, 0, 0, 0, 0, 0, 0, 0, 2]"

definition addrG :: Address where
  "addrG = [0x20, 0x01, 0x0d, 0xb8, 0, 0, 0, 0, 0, 0, 0, 0, 0, 0, 0, 2]"

definition snmcA :: Address where
  "snmcA = [0xff, 0x02, 0, 0, 0, 0, 0, 0, 0, 0, 0, 0x01, 0xff, 0, 0, 0x01]"

definition allRouters :: Address where
  "allRouters = [0xff, 0x02, 0, 0, 0, 0, 0, 0, 0, 0, 0, 0, 0, 0, 0, 0x02]"

definition macA :: LinkAddress where "macA = [2, 0, 0, 0, 0, 1]"
definition macB :: LinkAddress where "macB = [2, 0, 0, 0, 0, 2]"


definition ipv6Header :: "Address \<Rightarrow> Address \<Rightarrow> byte \<Rightarrow> View" where
  "ipv6Header src dst hopLimit = [0x60, 0, 0, 0, 0, 0, 58, hopLimit] @ src @ dst"

definition env0 :: Env where
  "env0 = \<lparr>IsAddrTentative = (\<lambda>nic addr. Inr False),
           CheckLocalAddress = (\<lambda>nic proto addr. nic),
           Forwarding = True,
           WritePacket_err = (\<lambda>r params pkt. None),
           calculateMTU = (\<lambda>mtu. mtu),
           Iter = (\<lambda>check opts. Inr opts)\<rparr>"

definition envTentative :: Env where
  "envTentative = env0\<lparr>IsAddrTentative := (\<lambda>nic addr. Inr True)\<rparr>"

definition envUnknownNIC :: Env where
  "envUnknownNIC = env0\<lparr>IsAddrTentative := (\<lambda>nic addr. Inl ''unknown NIC'')\<rparr>"

definition endpointA :: endpoint where
  "endpointA = \<lparr>nicID = 1, id_LocalAddress = addrA\<rparr>"

definition route :: "Address \<Rightarrow> Address \<Rightarrow> Route" where
  "route local remote =
     \<lparr>LocalAddress = local, RemoteAddress = remote, LocalLinkAddress = macA,
      RemoteLinkAddress = [], NICID = 1, MaxHeaderLength = 14, DefaultTTL = 64\<rparr>"

definition state0 :: State where
  "state0 =
     \<lparr>V6PacketsSent =
        \<lparr>EchoRequest = 0, EchoReply = 0, DstUnreachable = 0, PacketTooBig = 0,
         TimeExceeded = 0, ParamProblem = 0, RouterSolicit = 0, RouterAdvert = 0,
         NeighborSolicit = 0, NeighborAdvert = 0, RedirectMsg = 0, Dropped = 0\<rparr>,
      V6PacketsReceived =
        \<lparr>EchoRequest = 0, EchoReply = 0, DstUnreachable = 0, PacketTooBig = 0,
         TimeExceeded = 0, ParamProblem = 0, RouterSolicit = 0, RouterAdvert = 0,
         NeighborSolicit = 0, NeighborAdvert = 0, RedirectMsg = 0, Invalid = 0\<rparr>,
      calls = []\<rparr>"

definition inbound :: "View \<Rightarrow> PacketBuffer" where
  "inbound v = \<lparr>Data = [v], Header = NewPrependable 0\<rparr>"

text \<open>
  The messages. Each carries the checksum that is right between the addresses it is
  used with, but for \<open>echoBadChecksum\<close>.
\<close>

definition echoPing :: View where
  "echoPing = [128, 0, 0x91, 0xa8, 0x12, 0x34, 0, 7, 0x70, 0x69, 0x6e, 0x67]"

definition echoBadChecksum :: View where
  "echoBadChecksum = [128, 0, 0, 0, 0x12, 0x34, 0, 7, 0x70, 0x69, 0x6e, 0x67]"

definition nsFromB :: View where
  "nsFromB = [135, 0, 0x7a, 0x97, 0, 0, 0, 0] @ addrA @ [1, 1] @ macB"

definition nsFromBMalformedTail :: View where
  "nsFromBMalformedTail = [135, 0, 0x79, 0x95, 0, 0, 0, 0] @ addrA @ [1, 1] @ macB @ [1, 0]"

definition nsFromBNoOptionMulticast :: View where
  "nsFromBNoOptionMulticast = [135, 0, 0x7d, 0xa2, 0, 0, 0, 0] @ addrA"

definition nsFromUnspecified :: View where
  "nsFromUnspecified = [135, 0, 0x7c, 0x25, 0, 0, 0, 0] @ addrA"

definition nsShort :: View where
  "nsShort = [135, 0, 0x7c, 0x34, 0, 0, 0, 0]"

definition naFromB :: View where
  "naFromB = [136, 0, 0x18, 0x1a, 0x60, 0, 0, 0] @ addrB @ [2, 1] @ macB"

definition rsFromUnspecified :: View where
  "rsFromUnspecified = [133, 0, 0x78, 0xad, 0, 0, 0, 0] @ [1, 1] @ macB"

definition rsFromBMalformedTail :: View where
  "rsFromBMalformedTail = [133, 0, 0x79, 0x28, 0, 0, 0, 0] @ [1, 1] @ macB @ [1, 0]"

definition raFromB :: View where
  "raFromB = [134, 0, 0x35, 0x26, 64, 0, 7, 8, 0, 0, 0, 0, 0, 0, 0, 0]"

definition raFromG :: View where
  "raFromG = [134, 0, 0x05, 0xee, 64, 0, 7, 8, 0, 0, 0, 0, 0, 0, 0, 0]"

text \<open>
  The start of a UDP datagram that A sent to G and the start of one that B sent to G,
  as a Packet Too Big message would quote them.
\<close>

definition quotedFromA :: View where
  "quotedFromA = [0x60, 0, 0, 0, 0, 8, 17, 64] @ addrA @ addrG @ [0x30, 0x39, 0, 53, 0, 8, 0, 0]"

definition quotedFromB :: View where
  "quotedFromB = [0x60, 0, 0, 0, 0, 8, 17, 64] @ addrB @ addrG @ [0x30, 0x39, 0, 53, 0, 8, 0, 0]"

text \<open>
  A Packet Too Big message (MTU 1280) and a Destination Unreachable message with code
  Port Unreachable, both from G to A and both quoting the datagram that A sent.
\<close>

definition packetTooBigQuotingA :: View where
  "packetTooBigQuotingA = [2, 0, 0xfe, 0x54, 0, 0, 5, 0] @ quotedFromA"

definition portUnreachableQuotingA :: View where
  "portUnreachableQuotingA = [1, 4, 0x04, 0x51, 0, 0, 0, 0] @ quotedFromA"

section \<open>Facts about the model\<close>

subsection \<open>Collections of definitions\<close>

lemmas type_defs = ICMPv6PacketTooBig_def ICMPv6DstUnreachable_def ICMPv6NeighborSolicit_def
  ICMPv6NeighborAdvert_def ICMPv6EchoRequest_def ICMPv6EchoReply_def ICMPv6TimeExceeded_def
  ICMPv6ParamProblem_def ICMPv6RouterSolicit_def ICMPv6RouterAdvert_def ICMPv6RedirectMsg_def

lemmas size_defs = ICMPv6MinimumSize_def ICMPv6HeaderSize_def NDPNSMinimumSize_def
  NDPNAMinimumSize_def NDPRSMinimumSize_def NDPRAMinimumSize_def NDPLinkLayerAddressSize_def
  ICMPv6NeighborSolicitMinimumSize_def ICMPv6NeighborAdvertMinimumSize_def
  ICMPv6NeighborAdvertSize_def ICMPv6EchoMinimumSize_def ICMPv6DstUnreachableMinimumSize_def
  ICMPv6PacketTooBigMinimumSize_def IPv6MinimumSize_def IPv6AddressSize_def
  EthernetAddressSize_def IPv6FragmentHeaderSize_def

lemmas example_defs = addrA_def addrB_def addrG_def snmcA_def allRouters_def macA_def macB_def
  ipv6Header_def inbound_def echoPing_def echoBadChecksum_def nsFromB_def
  nsFromBMalformedTail_def nsFromBNoOptionMulticast_def nsFromUnspecified_def nsShort_def
  naFromB_def rsFromUnspecified_def rsFromBMalformedTail_def raFromB_def raFromG_def
  quotedFromA_def quotedFromB_def packetTooBigQuotingA_def portUnreachableQuotingA_def
  IPv6Any_def IPv6AllNodesMulticastAddress_def

lemmas checksum_defs = Checksum_def Size_def PutUint32_def Uint16_def onesAdd_def
  ICMPv6ProtocolNumber_def

text \<open>
  The equations of the loops hold for every argument, so the simplifier is given them
  only where a proof asks for one step.
\<close>

declare nsOptions.simps [simp del] naOptions.simps [simp del] rsOptions.simps [simp del]
  raOptions.simps [simp del] optionsOf.simps [simp del] wellFormed.simps [simp del]

lemmas option_defs = ndpOptSrcLinkAddr_def ndpOptDstLinkAddr_def EthernetAddress_def
  EthernetAddressSize_def

lemmas checksum_unfold = checksumValid_def ICMPv6Checksum_def ICMPv6_Checksum_def
  IPv6_SourceAddress_def IPv6_DestinationAddress_def First_def RemoveFirst_def Clone_def Let_def

subsection \<open>Buffers, checksums, options and the cases of the switch\<close>

lemma checksumValid_echoPing: "checksumValid (ipv6Header addrB addrA 64) (inbound echoPing)"
  unfolding checksumValid_def ICMPv6Checksum_def ICMPv6_Checksum_def IPv6_SourceAddress_def
    IPv6_DestinationAddress_def First_def RemoveFirst_def Clone_def Let_def example_defs
  by (simp add: checksum_defs size_defs)

lemma checksumInvalid_echoBad:
  "\<not> checksumValid (ipv6Header addrB addrA 64) (inbound echoBadChecksum)"
  unfolding checksumValid_def ICMPv6Checksum_def ICMPv6_Checksum_def IPv6_SourceAddress_def
    IPv6_DestinationAddress_def First_def RemoveFirst_def Clone_def Let_def example_defs
  by (simp add: checksum_defs size_defs)

lemma length_First_le_Size: "length (First vv) \<le> Size vv"
  by (cases vv) (auto simp: First_def Size_def)

lemma caseNeighborSolicit_short:
  "length h < ICMPv6NeighborSolicitMinimumSize \<Longrightarrow>
   caseNeighborSolicit env e r iph h frag st
     = Inr (received Invalid_update (received NeighborSolicit_update st))"
  by (simp add: caseNeighborSolicit_def)

lemma caseNeighborAdvert_short:
  "length h < ICMPv6NeighborAdvertSize \<Longrightarrow>
   caseNeighborAdvert env r iph h frag st
     = received Invalid_update (received NeighborAdvert_update st)"
  by (simp add: caseNeighborAdvert_def)

lemma caseRouterAdvert_short:
  "length h < ICMPv6HeaderSize + NDPRAMinimumSize \<Longrightarrow>
   caseRouterAdvert env r iph h frag st
     = received Invalid_update (received RouterAdvert_update st)"
  by (auto simp: caseRouterAdvert_def ICMPv6_NDPPayload_def Let_def size_defs)

lemma short_types:
  assumes "ICMPv6MinimumSize \<le> n" and "n < minimumSizeOf t"
  shows "(t = ICMPv6NeighborSolicit \<and> n < ICMPv6NeighborSolicitMinimumSize)
       \<or> (t = ICMPv6NeighborAdvert \<and> n < ICMPv6NeighborAdvertSize)
       \<or> (t = ICMPv6RouterAdvert \<and> n < ICMPv6HeaderSize + NDPRAMinimumSize)"
  using assms
  by (simp add: minimumSizeOf_def size_defs split: if_splits)

lemma concat_TrimFront: "concat (TrimFront n vv) = drop n (concat vv)"
  by (induction vv arbitrary: n) auto

lemma Prepend_New:
  "Prepend n (NewPrependable (m + n))
     = Some (\<lparr>buf = replicate (m + n) 0, usedIdx = m\<rparr>, replicate n 0)"
  by (simp add: Prepend_def NewPrependable_def)

lemma UsedBytes_withView:
  "length v = n \<Longrightarrow> UsedBytes (withView \<lparr>buf = replicate (m + n) 0, usedIdx = m\<rparr> v) = v"
  by (simp add: UsedBytes_def withView_def)

lemma Uint16_split: "Uint16 (ucast (drop_bit 8 c)) (ucast c) = c"
  unfolding Uint16_def
  by (rule bit_word_eqI) (auto simp: bit_simps)

lemma Checksum_SetChecksum:
  "4 \<le> length p \<Longrightarrow> ICMPv6_Checksum (ICMPv6_SetChecksum p c) = c"
  by (simp add: ICMPv6_Checksum_def ICMPv6_SetChecksum_def Uint16_split nth_list_update)

lemma ICMPv6Checksum_SetChecksum:
  "ICMPv6Checksum (ICMPv6_SetChecksum p c) src dst vv = ICMPv6Checksum p src dst vv"
  unfolding ICMPv6Checksum_def ICMPv6_SetChecksum_def
  by (simp add: list_update_swap [of 2 3])

lemma length_SetChecksum: "length (ICMPv6_SetChecksum p c) = length p"
  by (simp add: ICMPv6_SetChecksum_def)

lemma checksum_of_own:
  "4 \<le> length p \<Longrightarrow>
   ICMPv6_Checksum (ICMPv6_SetChecksum p (ICMPv6Checksum p src dst vv))
     = ICMPv6Checksum (ICMPv6_SetChecksum p (ICMPv6Checksum p src dst vv)) src dst vv"
  by (simp add: Checksum_SetChecksum ICMPv6Checksum_SetChecksum)

lemma handleICMP_EchoRequest:
  assumes "reachesSwitch netHeader pkt"
    and "ICMPv6_Type (First (Data pkt)) = ICMPv6EchoRequest"
  shows "handleICMP env e r netHeader pkt frag st = caseEchoRequest env r (First (Data pkt)) pkt st"
  using assms
  by (simp add: handleICMP_def reachesSwitch_def checksumValid_def Let_def type_defs)

lemma caseEchoRequest_reply:
  assumes "ICMPv6EchoMinimumSize \<le> length h"
    and "data = TrimFront ICMPv6EchoMinimumSize (Data pkt)"
    and "p0 = ICMPv6_SetType (take ICMPv6EchoMinimumSize h) ICMPv6EchoReply"
    and "p = ICMPv6_SetChecksum p0 (ICMPv6Checksum p0 (LocalAddress r) (RemoteAddress r) data)"
    and "params = \<lparr>Protocol = ICMPv6ProtocolNumber, TTL = DefaultTTL r, TOS = DefaultTOS\<rparr>"
    and "out = \<lparr>Data = data,
                Header = withView \<lparr>buf = replicate (unat (MaxHeaderLength r) + ICMPv6EchoMinimumSize) 0,
                                   usedIdx = unat (MaxHeaderLength r)\<rparr> p\<rparr>"
  shows "caseEchoRequest env r h pkt st
           = Inr (sent (if WritePacket_err env r params out = None
                        then EchoReply_update else Dropped_update)
                   (call (WritePacket r params out) (received EchoRequest_update st)))"
proof -
  have c: "copy (replicate ICMPv6EchoMinimumSize 0) h = take ICMPv6EchoMinimumSize h"
    using assms(1) by (simp add: copy_def min_def)
  show ?thesis
    unfolding caseEchoRequest_def Let_def Prepend_New assms(2-6)
    using assms(1)
    by (cases "WritePacket_err env r
                 \<lparr>Protocol = ICMPv6ProtocolNumber, TTL = DefaultTTL r, TOS = DefaultTOS\<rparr>
                 \<lparr>Data = TrimFront ICMPv6EchoMinimumSize (Data pkt),
                  Header = withView \<lparr>buf = replicate (unat (MaxHeaderLength r) + ICMPv6EchoMinimumSize) 0,
                                     usedIdx = unat (MaxHeaderLength r)\<rparr>
                     (ICMPv6_SetChecksum
                        (ICMPv6_SetType (take ICMPv6EchoMinimumSize h) ICMPv6EchoReply)
                        (ICMPv6Checksum
                           (ICMPv6_SetType (take ICMPv6EchoMinimumSize h) ICMPv6EchoReply)
                           (LocalAddress r) (RemoteAddress r)
                           (TrimFront ICMPv6EchoMinimumSize (Data pkt))))\<rparr>")
       (simp_all add: c)
qed

lemma reachesSwitch_echoPing: "reachesSwitch (ipv6Header addrB addrA 64) (inbound echoPing)"
  unfolding reachesSwitch_def
  by (simp add: checksumValid_echoPing) (simp add: First_def example_defs size_defs)





lemma rsOptions_eq:
  assumes "IPv6_SourceAddress iph \<noteq> []"
  shows "rsOptions it iph r st
     = (if wellFormed it then (\<lambda>s. s) else received Invalid_update)
         (st\<lparr>calls := calls st
                  @ map (HandleProbe (IPv6_SourceAddress iph) (LocalAddress r) IPv6ProtocolNumber)
                      (sourceLinkAddrs (optionsOf it))\<rparr>)"
  using assms
proof (induction it iph r st rule: rsOptions.induct)
  case (1 it iph r st)
  show ?case
    apply (subst rsOptions.simps)
    apply (subst optionsOf.simps)
    apply (subst wellFormed.simps)
    using "1.IH" "1.prems"
    by (simp split: sum.splits option.splits NDPOption.splits
          del: rsOptions.simps optionsOf.simps wellFormed.simps
          add: call_def received_def Let_def)
qed



lemma length_SourceAddress:
  "IPv6MinimumSize \<le> length iph \<Longrightarrow> length (IPv6_SourceAddress iph) = IPv6AddressSize"
  by (simp add: IPv6_SourceAddress_def size_defs)

lemma handleICMP_RouterSolicit:
  assumes "reachesSwitch netHeader pkt"
    and "ICMPv6_Type (First (Data pkt)) = ICMPv6RouterSolicit"
  shows "handleICMP env e r netHeader pkt frag st
           = Inr (caseRouterSolicit env r netHeader (First (Data pkt)) frag st)"
  using assms
  by (simp add: handleICMP_def reachesSwitch_def checksumValid_def Let_def type_defs)


lemma handleICMP_NeighborSolicit:
  assumes "reachesSwitch netHeader pkt"
    and "ICMPv6_Type (First (Data pkt)) = ICMPv6NeighborSolicit"
  shows "handleICMP env e r netHeader pkt frag st
           = caseNeighborSolicit env e r netHeader (First (Data pkt)) frag st"
  using assms
  by (simp add: handleICMP_def reachesSwitch_def checksumValid_def Let_def type_defs)

lemma handleICMP_NeighborAdvert:
  assumes "reachesSwitch netHeader pkt"
    and "ICMPv6_Type (First (Data pkt)) = ICMPv6NeighborAdvert"
  shows "handleICMP env e r netHeader pkt frag st
           = Inr (caseNeighborAdvert env r netHeader (First (Data pkt)) frag st)"
  using assms
  by (simp add: handleICMP_def reachesSwitch_def checksumValid_def Let_def type_defs)

lemma caseRouterSolicit_eq:
  assumes "ICMPv6MinimumSize \<le> length h"
    and "IPv6MinimumSize \<le> length iph"
    and "isNDPValid frag iph h"
    and "Forwarding env"
    and "Iter env False (NDPRouterSolicit_Options (ICMPv6_NDPPayload h)) = Inr it"
  shows "caseRouterSolicit env r iph h frag st
     = (if wellFormed it then (\<lambda>s. s) else received Invalid_update)
         ((received RouterSolicit_update st)
            \<lparr>calls := calls st
                 @ map (HandleProbe (IPv6_SourceAddress iph) (LocalAddress r) IPv6ProtocolNumber)
                     (sourceLinkAddrs (optionsOf it))\<rparr>)"
proof -
  have src: "IPv6_SourceAddress iph \<noteq> []"
    using length_SourceAddress [OF assms(2)] by (auto simp: IPv6AddressSize_def)
  have p: "\<not> length (ICMPv6_NDPPayload h) < NDPRSMinimumSize"
    using assms(1) by (simp add: ICMPv6_NDPPayload_def size_defs)
  show ?thesis
    unfolding caseRouterSolicit_def Let_def
    using assms(3,4,5) p
    by (simp add: rsOptions_eq [OF src] received_def)
qed



lemma reachesSwitch_rsFromUnspecified:
  "reachesSwitch (ipv6Header IPv6Any allRouters 255) (inbound rsFromUnspecified)"
proof -
  have "checksumValid (ipv6Header IPv6Any allRouters 255) (inbound rsFromUnspecified)"
    unfolding checksum_unfold example_defs
    by (simp add: checksum_defs size_defs)
  then show ?thesis
    by (simp add: reachesSwitch_def) (simp add: First_def example_defs size_defs)
qed

lemma reachesSwitch_rsFromBMalformedTail:
  "reachesSwitch (ipv6Header addrB allRouters 255) (inbound rsFromBMalformedTail)"
proof -
  have "checksumValid (ipv6Header addrB allRouters 255) (inbound rsFromBMalformedTail)"
    unfolding checksum_unfold example_defs
    by (simp add: checksum_defs size_defs)
  then show ?thesis
    by (simp add: reachesSwitch_def) (simp add: First_def example_defs size_defs)
qed

lemma EthernetAddress_macB: "EthernetAddress macB = macB"
  by (simp add: macB_def option_defs)

lemma options_one_source: "optionsOf (1 # 1 # macB) = [NDPSourceLinkLayerAddressOption macB]"
  by (simp add: optionsOf.simps [of "[]"] optionsOf.simps [of "_ # _"] macB_def option_defs)

lemma wellFormed_one_source: "wellFormed (1 # 1 # macB)"
  by (simp add: wellFormed.simps [of "[]"] wellFormed.simps [of "_ # _"] macB_def option_defs)

lemma options_malformed_tail:
  "optionsOf (1 # 1 # macB @ [1, 0]) = [NDPSourceLinkLayerAddressOption macB]"
  by (simp add: optionsOf.simps [of "_ # _"] macB_def option_defs)

lemma not_wellFormed_malformed_tail: "\<not> wellFormed (1 # 1 # macB @ [1, 0])"
  by (simp add: wellFormed.simps [of "_ # _"] macB_def option_defs)



lemma caseNeighborSolicit_tentative:
  assumes "ICMPv6NeighborSolicitMinimumSize \<le> length h"
    and "isNDPValid frag iph h"
    and "IsAddrTentative env (nicID e) (NDPNeighborSolicit_TargetAddress (ICMPv6_NDPPayload h))
           = Inr True"
  shows "caseNeighborSolicit env e r iph h frag st
           = Inr (if RemoteAddress r = IPv6Any
                  then call (DupTentativeAddrDetected (nicID e)
                               (NDPNeighborSolicit_TargetAddress (ICMPv6_NDPPayload h)))
                         (received NeighborSolicit_update st)
                  else received NeighborSolicit_update st)"
  unfolding caseNeighborSolicit_def Let_def
  using assms by simp

lemma caseNeighborSolicit_error:
  assumes "ICMPv6NeighborSolicitMinimumSize \<le> length h"
    and "isNDPValid frag iph h"
    and "IsAddrTentative env (nicID e) (NDPNeighborSolicit_TargetAddress (ICMPv6_NDPPayload h))
           = Inl err"
  shows "caseNeighborSolicit env e r iph h frag st = Inr (received NeighborSolicit_update st)"
  unfolding caseNeighborSolicit_def Let_def
  using assms by simp

lemma caseNeighborSolicit_gate:
  assumes "\<not> isNDPValid frag iph h"
  shows "caseNeighborSolicit env e r iph h frag st
           = Inr (received Invalid_update (received NeighborSolicit_update st))"
  unfolding caseNeighborSolicit_def Let_def
  using assms by simp

lemma caseNeighborAdvert_tentative:
  assumes "ICMPv6NeighborAdvertSize \<le> length h"
    and "isNDPValid frag iph h"
    and "Iter env True (NDPNeighborAdvert_Options (ICMPv6_NDPPayload h)) = Inr it"
    and "IsAddrTentative env (NICID r) (NDPNeighborAdvert_TargetAddress (ICMPv6_NDPPayload h))
           = Inr True"
  shows "caseNeighborAdvert env r iph h frag st
           = call (DupTentativeAddrDetected (NICID r)
                     (NDPNeighborAdvert_TargetAddress (ICMPv6_NDPPayload h)))
               (received NeighborAdvert_update st)"
  unfolding caseNeighborAdvert_def Let_def
  using assms by simp

lemma caseNeighborAdvert_error:
  assumes "ICMPv6NeighborAdvertSize \<le> length h"
    and "isNDPValid frag iph h"
    and "Iter env True (NDPNeighborAdvert_Options (ICMPv6_NDPPayload h)) = Inr it"
    and "IsAddrTentative env (NICID r) (NDPNeighborAdvert_TargetAddress (ICMPv6_NDPPayload h))
           = Inl err"
  shows "caseNeighborAdvert env r iph h frag st = received NeighborAdvert_update st"
  unfolding caseNeighborAdvert_def Let_def
  using assms by simp

lemma reachesSwitch_nsFromUnspecified:
  "reachesSwitch (ipv6Header IPv6Any snmcA hopLimit) (inbound nsFromUnspecified)"
proof -
  have "checksumValid (ipv6Header IPv6Any snmcA hopLimit) (inbound nsFromUnspecified)"
    unfolding checksum_unfold example_defs
    by (simp add: checksum_defs size_defs)
  then show ?thesis
    by (simp add: reachesSwitch_def) (simp add: First_def example_defs size_defs)
qed

lemma reachesSwitch_nsFromB:
  "reachesSwitch (ipv6Header addrB snmcA 255) (inbound nsFromB)"
proof -
  have "checksumValid (ipv6Header addrB snmcA 255) (inbound nsFromB)"
    unfolding checksum_unfold example_defs
    by (simp add: checksum_defs size_defs)
  then show ?thesis
    by (simp add: reachesSwitch_def) (simp add: First_def example_defs size_defs)
qed

lemma reachesSwitch_naFromB:
  "reachesSwitch (ipv6Header addrB addrA 255) (inbound naFromB)"
proof -
  have "checksumValid (ipv6Header addrB addrA 255) (inbound naFromB)"
    unfolding checksum_unfold example_defs
    by (simp add: checksum_defs size_defs)
  then show ?thesis
    by (simp add: reachesSwitch_def) (simp add: First_def example_defs size_defs)
qed















lemma reachesSwitch_packetTooBigQuotingA:
  "reachesSwitch (ipv6Header addrG addrA 64) (inbound packetTooBigQuotingA)"
proof -
  have "checksumValid (ipv6Header addrG addrA 64) (inbound packetTooBigQuotingA)"
    unfolding checksum_unfold packetTooBigQuotingA_def example_defs
    by (simp add: checksum_defs size_defs)
  then show ?thesis
    by (simp add: reachesSwitch_def)
       (simp add: First_def packetTooBigQuotingA_def example_defs size_defs)
qed

lemma reachesSwitch_portUnreachableQuotingA:
  "reachesSwitch (ipv6Header addrG addrA 64) (inbound portUnreachableQuotingA)"
proof -
  have "checksumValid (ipv6Header addrG addrA 64) (inbound portUnreachableQuotingA)"
    unfolding checksum_unfold portUnreachableQuotingA_def example_defs
    by (simp add: checksum_defs size_defs)
  then show ?thesis
    by (simp add: reachesSwitch_def)
       (simp add: First_def portUnreachableQuotingA_def example_defs size_defs)
qed

lemma handleICMP_PacketTooBig:
  assumes "reachesSwitch netHeader pkt"
    and "ICMPv6_Type (First (Data pkt)) = ICMPv6PacketTooBig"
  shows "handleICMP env e r netHeader pkt frag st
           = Inr (handleControl e ControlPacketTooBig
                    (calculateMTU env (ICMPv6_MTU (First (Data pkt))))
                    (pkt\<lparr>Data := TrimFront ICMPv6PacketTooBigMinimumSize (Data pkt)\<rparr>)
                    (received PacketTooBig_update st))"
  using assms
  by (simp add: handleICMP_def reachesSwitch_def checksumValid_def Let_def type_defs
        casePacketTooBig_def ICMPv6PacketTooBigMinimumSize_def)

lemma handleICMP_PortUnreachable:
  assumes "reachesSwitch netHeader pkt"
    and "ICMPv6_Type (First (Data pkt)) = ICMPv6DstUnreachable"
    and "ICMPv6_Code (First (Data pkt)) = ICMPv6PortUnreachable"
  shows "handleICMP env e r netHeader pkt frag st
           = Inr (handleControl e ControlPortUnreachable 0
                    (pkt\<lparr>Data := TrimFront ICMPv6DstUnreachableMinimumSize (Data pkt)\<rparr>)
                    (received DstUnreachable_update st))"
  using assms
  by (simp add: handleICMP_def reachesSwitch_def checksumValid_def Let_def type_defs
        caseDstUnreachable_def ICMPv6DstUnreachableMinimumSize_def)

section \<open>The claims\<close>

subsection \<open>C1: Neighbor Solicitation answered by a Neighbor Advertisement\<close>




subsection \<open>C2: Source Link-Layer Address option of a Neighbor Solicitation\<close>




subsection \<open>C3: Tentative target addresses\<close>

text \<open>
  C3, as the claim states it, fails: a Neighbor Solicitation from the unspecified
  address for a tentative target that arrives with hop limit 64 does not pass the NDP
  validity gate. It is counted as \<open>Invalid\<close> and \<open>DupTentativeAddrDetected\<close> is not
  called.
\<close>

theorem tentative_target_counterexample:
  "ICMPv6_Type (First (Data (inbound nsFromUnspecified))) = ICMPv6NeighborSolicit
   \<and> IsAddrTentative envTentative (nicID endpointA)
        (NDPNeighborSolicit_TargetAddress
           (ICMPv6_NDPPayload (First (Data (inbound nsFromUnspecified))))) = Inr True
   \<and> RemoteAddress (route snmcA IPv6Any) = IPv6Any
   \<and> handleICMP envTentative endpointA (route snmcA IPv6Any) (ipv6Header IPv6Any snmcA 64)
        (inbound nsFromUnspecified) False state0
      = Inr (received Invalid_update (received NeighborSolicit_update state0))
   \<and> calls (received Invalid_update (received NeighborSolicit_update state0)) = []"
proof -
  have ty: "ICMPv6_Type (First (Data (inbound nsFromUnspecified))) = ICMPv6NeighborSolicit"
    by (simp add: First_def example_defs ICMPv6_Type_def type_defs)
  have gate: "\<not> isNDPValid False (ipv6Header IPv6Any snmcA 64)
                   (First (Data (inbound nsFromUnspecified)))"
    by (simp add: isNDPValid_def IPv6_HopLimit_def NDPHopLimit_def example_defs)
  show ?thesis
    unfolding handleICMP_NeighborSolicit [OF reachesSwitch_nsFromUnspecified ty]
      caseNeighborSolicit_gate [OF gate]
    by (simp add: ty envTentative_def env0_def route_def state0_def received_def)
qed

text \<open>
  C3, amended. For a Neighbor Solicitation that reaches the switch, has the minimum
  size of a solicitation and passes the NDP validity gate: when its target is
  tentative on the endpoint's NIC and its source is the unspecified address, the one
  call made is \<open>DupTentativeAddrDetected\<close> for that NIC and target, and nothing is
  sent; when the target is tentative and the source is specified, no call is made;
  when \<open>IsAddrTentative\<close> returns an error, no call is made. For a Neighbor
  Advertisement that reaches the switch, has the size the source asks for, passes the
  gate and whose option iterator is created without error: when its target is
  tentative on the route's NIC, the one call made is \<open>DupTentativeAddrDetected\<close>; when
  \<open>IsAddrTentative\<close> returns an error, no call is made. In each case only the counter
  of the message type moves.
\<close>

theorem tentative_target_reported:
  assumes "reachesSwitch netHeader pkt"
    and "isNDPValid hasFragmentHeader netHeader (First (Data pkt))"
    and "h = First (Data pkt)"
    and "nsTarget = NDPNeighborSolicit_TargetAddress (ICMPv6_NDPPayload h)"
    and "naTarget = NDPNeighborAdvert_TargetAddress (ICMPv6_NDPPayload h)"
  shows "(ICMPv6_Type h = ICMPv6NeighborSolicit \<and> ICMPv6NeighborSolicitMinimumSize \<le> length h
            \<longrightarrow> (IsAddrTentative env (nicID e) nsTarget = Inr True \<and> RemoteAddress r = IPv6Any
                    \<longrightarrow> handleICMP env e r netHeader pkt hasFragmentHeader st
                          = Inr (call (DupTentativeAddrDetected (nicID e) nsTarget)
                                   (received NeighborSolicit_update st)))
                \<and> (IsAddrTentative env (nicID e) nsTarget = Inr True \<and> RemoteAddress r \<noteq> IPv6Any
                    \<longrightarrow> handleICMP env e r netHeader pkt hasFragmentHeader st
                          = Inr (received NeighborSolicit_update st))
                \<and> (\<forall>err. IsAddrTentative env (nicID e) nsTarget = Inl err
                    \<longrightarrow> handleICMP env e r netHeader pkt hasFragmentHeader st
                          = Inr (received NeighborSolicit_update st)))
       \<and> (ICMPv6_Type h = ICMPv6NeighborAdvert \<and> ICMPv6NeighborAdvertSize \<le> length h
            \<and> Iter env True (NDPNeighborAdvert_Options (ICMPv6_NDPPayload h)) = Inr it
            \<longrightarrow> (IsAddrTentative env (NICID r) naTarget = Inr True
                    \<longrightarrow> handleICMP env e r netHeader pkt hasFragmentHeader st
                          = Inr (call (DupTentativeAddrDetected (NICID r) naTarget)
                                   (received NeighborAdvert_update st)))
                \<and> (\<forall>err. IsAddrTentative env (NICID r) naTarget = Inl err
                    \<longrightarrow> handleICMP env e r netHeader pkt hasFragmentHeader st
                          = Inr (received NeighborAdvert_update st)))"
proof (intro conjI impI allI)
  assume a: "ICMPv6_Type h = ICMPv6NeighborSolicit \<and> ICMPv6NeighborSolicitMinimumSize \<le> length h"
  note d = handleICMP_NeighborSolicit [OF assms(1) a [THEN conjunct1, unfolded assms(3)]]
  note s = a [THEN conjunct2, unfolded assms(3)]
  {
    assume "IsAddrTentative env (nicID e) nsTarget = Inr True \<and> RemoteAddress r = IPv6Any"
    then show "handleICMP env e r netHeader pkt hasFragmentHeader st
                 = Inr (call (DupTentativeAddrDetected (nicID e) nsTarget)
                          (received NeighborSolicit_update st))"
      unfolding d assms(4) assms(3)
      by (simp add: caseNeighborSolicit_tentative [OF s assms(2)])
  next
    assume "IsAddrTentative env (nicID e) nsTarget = Inr True \<and> RemoteAddress r \<noteq> IPv6Any"
    then show "handleICMP env e r netHeader pkt hasFragmentHeader st
                 = Inr (received NeighborSolicit_update st)"
      unfolding d assms(4) assms(3)
      by (simp add: caseNeighborSolicit_tentative [OF s assms(2)])
  next
    fix err
    assume "IsAddrTentative env (nicID e) nsTarget = Inl err"
    then show "handleICMP env e r netHeader pkt hasFragmentHeader st
                 = Inr (received NeighborSolicit_update st)"
      unfolding d assms(4) assms(3)
      by (simp add: caseNeighborSolicit_error [OF s assms(2)])
  }
next
  assume a: "ICMPv6_Type h = ICMPv6NeighborAdvert \<and> ICMPv6NeighborAdvertSize \<le> length h
             \<and> Iter env True (NDPNeighborAdvert_Options (ICMPv6_NDPPayload h)) = Inr it"
  note d = handleICMP_NeighborAdvert [OF assms(1) a [THEN conjunct1, unfolded assms(3)]]
  note s = a [THEN conjunct2, THEN conjunct1, unfolded assms(3)]
  note i = a [THEN conjunct2, THEN conjunct2, unfolded assms(3)]
  {
    assume "IsAddrTentative env (NICID r) naTarget = Inr True"
    then show "handleICMP env e r netHeader pkt hasFragmentHeader st
                 = Inr (call (DupTentativeAddrDetected (NICID r) naTarget)
                          (received NeighborAdvert_update st))"
      unfolding d assms(5) assms(3)
      by (simp add: caseNeighborAdvert_tentative [OF s assms(2) i])
  next
    fix err
    assume "IsAddrTentative env (NICID r) naTarget = Inl err"
    then show "handleICMP env e r netHeader pkt hasFragmentHeader st
                 = Inr (received NeighborAdvert_update st)"
      unfolding d assms(5) assms(3)
      by (simp add: caseNeighborAdvert_error [OF s assms(2) i])
  }
qed

theorem tentative_target_reported_witness:
  "reachesSwitch (ipv6Header IPv6Any snmcA 255) (inbound nsFromUnspecified)
   \<and> isNDPValid False (ipv6Header IPv6Any snmcA 255) (First (Data (inbound nsFromUnspecified)))
   \<and> ICMPv6_Type nsFromUnspecified = ICMPv6NeighborSolicit
   \<and> ICMPv6NeighborSolicitMinimumSize \<le> length nsFromUnspecified
   \<and> IsAddrTentative envTentative (nicID endpointA) addrA = Inr True
   \<and> RemoteAddress (route snmcA IPv6Any) = IPv6Any
   \<and> handleICMP envTentative endpointA (route snmcA IPv6Any) (ipv6Header IPv6Any snmcA 255)
        (inbound nsFromUnspecified) False state0
      = Inr (call (DupTentativeAddrDetected (nicID endpointA) addrA)
               (received NeighborSolicit_update state0))
   \<and> reachesSwitch (ipv6Header addrB snmcA 255) (inbound nsFromB)
   \<and> isNDPValid False (ipv6Header addrB snmcA 255) (First (Data (inbound nsFromB)))
   \<and> ICMPv6_Type nsFromB = ICMPv6NeighborSolicit
   \<and> ICMPv6NeighborSolicitMinimumSize \<le> length nsFromB
   \<and> RemoteAddress (route snmcA addrB) \<noteq> IPv6Any
   \<and> handleICMP envTentative endpointA (route snmcA addrB) (ipv6Header addrB snmcA 255)
        (inbound nsFromB) False state0
      = Inr (received NeighborSolicit_update state0)
   \<and> IsAddrTentative envUnknownNIC (nicID endpointA) addrA = Inl ''unknown NIC''
   \<and> handleICMP envUnknownNIC endpointA (route snmcA IPv6Any) (ipv6Header IPv6Any snmcA 255)
        (inbound nsFromUnspecified) False state0
      = Inr (received NeighborSolicit_update state0)
   \<and> reachesSwitch (ipv6Header addrB addrA 255) (inbound naFromB)
   \<and> isNDPValid False (ipv6Header addrB addrA 255) (First (Data (inbound naFromB)))
   \<and> ICMPv6_Type naFromB = ICMPv6NeighborAdvert
   \<and> ICMPv6NeighborAdvertSize \<le> length naFromB
   \<and> Iter envTentative True (NDPNeighborAdvert_Options (ICMPv6_NDPPayload naFromB))
      = Inr ([2, 1] @ macB)
   \<and> IsAddrTentative envTentative (NICID (route addrA addrB)) addrB = Inr True
   \<and> handleICMP envTentative endpointA (route addrA addrB) (ipv6Header addrB addrA 255)
        (inbound naFromB) False state0
      = Inr (call (DupTentativeAddrDetected (NICID (route addrA addrB)) addrB)
               (received NeighborAdvert_update state0))
   \<and> IsAddrTentative envUnknownNIC (NICID (route addrA addrB)) addrB = Inl ''unknown NIC''
   \<and> handleICMP envUnknownNIC endpointA (route addrA addrB) (ipv6Header addrB addrA 255)
        (inbound naFromB) False state0
      = Inr (received NeighborAdvert_update state0)"
proof -
  have fu: "First (Data (inbound nsFromUnspecified)) = nsFromUnspecified"
    and fb: "First (Data (inbound nsFromB)) = nsFromB"
    and fa: "First (Data (inbound naFromB)) = naFromB"
    by (simp_all add: First_def inbound_def)
  have tu: "NDPNeighborSolicit_TargetAddress (ICMPv6_NDPPayload nsFromUnspecified) = addrA"
    and tb: "NDPNeighborSolicit_TargetAddress (ICMPv6_NDPPayload nsFromB) = addrA"
    and ta: "NDPNeighborAdvert_TargetAddress (ICMPv6_NDPPayload naFromB) = addrB"
    by (simp_all add: NDPNeighborSolicit_TargetAddress_def NDPNeighborAdvert_TargetAddress_def
          ICMPv6_NDPPayload_def example_defs size_defs)
  note u1 = reachesSwitch_nsFromUnspecified [of 255]
  have u2: "isNDPValid False (ipv6Header IPv6Any snmcA 255)
              (First (Data (inbound nsFromUnspecified)))"
    by (simp add: isNDPValid_def IPv6_HopLimit_def ICMPv6_Code_def NDPHopLimit_def First_def
          example_defs)
  have u3: "ICMPv6_Type nsFromUnspecified = ICMPv6NeighborSolicit"
    by (simp add: example_defs ICMPv6_Type_def type_defs)
  have u4: "ICMPv6NeighborSolicitMinimumSize \<le> length nsFromUnspecified"
    by (simp add: example_defs size_defs)
  have u5: "IsAddrTentative envTentative (nicID endpointA) addrA = Inr True"
    by (simp add: envTentative_def env0_def)
  have u6: "RemoteAddress (route snmcA IPv6Any) = IPv6Any"
    by (simp add: route_def)
  note b1 = reachesSwitch_nsFromB
  have b2: "isNDPValid False (ipv6Header addrB snmcA 255) (First (Data (inbound nsFromB)))"
    by (simp add: isNDPValid_def IPv6_HopLimit_def ICMPv6_Code_def NDPHopLimit_def First_def
          example_defs)
  have b3: "ICMPv6_Type nsFromB = ICMPv6NeighborSolicit"
    by (simp add: example_defs ICMPv6_Type_def type_defs)
  have b4: "ICMPv6NeighborSolicitMinimumSize \<le> length nsFromB"
    by (simp add: example_defs size_defs)
  have b6: "RemoteAddress (route snmcA addrB) \<noteq> IPv6Any"
    by (simp add: route_def example_defs)
  have e5: "IsAddrTentative envUnknownNIC (nicID endpointA) addrA = Inl ''unknown NIC''"
    by (simp add: envUnknownNIC_def env0_def)
  note a1 = reachesSwitch_naFromB
  have a2: "isNDPValid False (ipv6Header addrB addrA 255) (First (Data (inbound naFromB)))"
    by (simp add: isNDPValid_def IPv6_HopLimit_def ICMPv6_Code_def NDPHopLimit_def First_def
          example_defs)
  have a3: "ICMPv6_Type naFromB = ICMPv6NeighborAdvert"
    by (simp add: example_defs ICMPv6_Type_def type_defs)
  have a4: "ICMPv6NeighborAdvertSize \<le> length naFromB"
    by (simp add: example_defs size_defs)
  have a5: "Iter envTentative True (NDPNeighborAdvert_Options (ICMPv6_NDPPayload naFromB))
              = Inr ([2, 1] @ macB)"
    by (simp add: envTentative_def env0_def NDPNeighborAdvert_Options_def ICMPv6_NDPPayload_def
          example_defs size_defs)
  have a5e: "Iter envUnknownNIC True (NDPNeighborAdvert_Options (ICMPv6_NDPPayload naFromB))
              = Inr ([2, 1] @ macB)"
    by (simp add: envUnknownNIC_def env0_def NDPNeighborAdvert_Options_def ICMPv6_NDPPayload_def
          example_defs size_defs)
  have a6: "IsAddrTentative envTentative (NICID (route addrA addrB)) addrB = Inr True"
    by (simp add: envTentative_def env0_def)
  have a6e: "IsAddrTentative envUnknownNIC (NICID (route addrA addrB)) addrB
               = Inl ''unknown NIC''"
    by (simp add: envUnknownNIC_def env0_def)
  note r1 = tentative_target_reported [OF u1 u2 fu [symmetric] tu [symmetric] refl,
      THEN conjunct1, THEN mp, OF conjI [OF u3 u4],
      THEN conjunct1, THEN mp, OF conjI [OF u5 u6]]
  note r2 = tentative_target_reported [OF b1 b2 fb [symmetric] tb [symmetric] refl,
      THEN conjunct1, THEN mp, OF conjI [OF b3 b4],
      THEN conjunct2, THEN conjunct1, THEN mp, OF conjI [OF u5 b6]]
  note r3 = tentative_target_reported [OF u1 u2 fu [symmetric] tu [symmetric] refl,
      THEN conjunct1, THEN mp, OF conjI [OF u3 u4],
      THEN conjunct2, THEN conjunct2, THEN spec, THEN mp, OF e5]
  note r4 = tentative_target_reported [OF a1 a2 fa [symmetric] refl ta [symmetric],
      THEN conjunct2, THEN mp, OF conjI [OF a3 conjI [OF a4 a5]],
      THEN conjunct1, THEN mp, OF a6]
  note r5 = tentative_target_reported [OF a1 a2 fa [symmetric] refl ta [symmetric],
      THEN conjunct2, THEN mp, OF conjI [OF a3 conjI [OF a4 a5e]],
      THEN conjunct2, THEN spec, THEN mp, OF a6e]
  show ?thesis
    by (intro conjI u1 u2 u3 u4 u5 u6 r1 b1 b2 b3 b4 b6 r2 e5 r3 a1 a2 a3 a4 a5 a6 r4 a6e r5)
qed

subsection \<open>C4: Checksum mismatch\<close>

text \<open>
  C4. A message of at least the global minimum size whose checksum field differs from
  the checksum computed over the message and the segments that follow it: handleICMP
  returns the state it was given with the received \<open>Invalid\<close> counter one higher.
  No other counter has moved and no call has been made, so the type has not been looked
  at, nothing was sent and no collaborator was told.
\<close>

theorem checksum_mismatch_dropped:
  assumes "ICMPv6MinimumSize \<le> length (First (Data pkt))"
    and "IPv6MinimumSize \<le> length netHeader"
    and "\<not> checksumValid netHeader pkt"
  shows "handleICMP env e r netHeader pkt hasFragmentHeader st
           = Inr (st\<lparr>V6PacketsReceived :=
                       (V6PacketsReceived st)\<lparr>Invalid := Invalid (V6PacketsReceived st) + 1\<rparr>\<rparr>)"
  using assms
  by (simp add: handleICMP_def checksumValid_def Let_def received_def Increment_def)

theorem checksum_mismatch_dropped_witness:
  "ICMPv6MinimumSize \<le> length (First (Data (inbound echoBadChecksum)))
   \<and> IPv6MinimumSize \<le> length (ipv6Header addrB addrA 64)
   \<and> \<not> checksumValid (ipv6Header addrB addrA 64) (inbound echoBadChecksum)
   \<and> handleICMP env0 endpointA (route addrA addrB) (ipv6Header addrB addrA 64)
        (inbound echoBadChecksum) False state0
      = Inr (state0\<lparr>V6PacketsReceived :=
               (V6PacketsReceived state0)\<lparr>Invalid := Invalid (V6PacketsReceived state0) + 1\<rparr>\<rparr>)"
proof -
  have a: "ICMPv6MinimumSize \<le> length (First (Data (inbound echoBadChecksum)))"
    by (simp add: First_def example_defs size_defs)
  have b: "IPv6MinimumSize \<le> length (ipv6Header addrB addrA 64)"
    by (simp add: example_defs size_defs)
  note c = checksumInvalid_echoBad
  show ?thesis
    by (rule conjI [OF a conjI [OF b conjI [OF c checksum_mismatch_dropped [OF a b c]]]])
qed

subsection \<open>C5: Router Solicitation from the unspecified address\<close>

text \<open>
  C5. The claim fails on the code at a Router Solicitation from the unspecified
  address that carries a Source Link-Layer Address option. The message passes the NDP
  validity gate, the node forwards, and the source address read from the IPv6 header is
  the sixteen zero bytes. The test the source makes for an unspecified source,
  \<open>len(sourceAddr) == 0\<close>, is false for them, so the packet is not dropped:
  \<open>HandleProbe\<close> is called with the unspecified address as the remote address.
\<close>

theorem router_solicit_unspecified_source_probed:
  "handleICMP env0 endpointA (route allRouters IPv6Any) (ipv6Header IPv6Any allRouters 255)
     (inbound rsFromUnspecified) False state0
   = Inr ((received RouterSolicit_update state0)
            \<lparr>calls := [HandleProbe IPv6Any allRouters IPv6ProtocolNumber macB]\<rparr>)"
proof -
  have ty: "ICMPv6_Type (First (Data (inbound rsFromUnspecified))) = ICMPv6RouterSolicit"
    by (simp add: First_def example_defs ICMPv6_Type_def type_defs)
  have len: "ICMPv6MinimumSize \<le> length (First (Data (inbound rsFromUnspecified)))"
    by (simp add: First_def example_defs size_defs)
  have nh: "IPv6MinimumSize \<le> length (ipv6Header IPv6Any allRouters 255)"
    by (simp add: example_defs size_defs)
  have gate: "isNDPValid False (ipv6Header IPv6Any allRouters 255)
                (First (Data (inbound rsFromUnspecified)))"
    by (simp add: isNDPValid_def IPv6_HopLimit_def ICMPv6_Code_def NDPHopLimit_def First_def
          example_defs)
  have fwd: "Forwarding env0"
    by (simp add: env0_def)
  have it: "Iter env0 False (NDPRouterSolicit_Options
              (ICMPv6_NDPPayload (First (Data (inbound rsFromUnspecified))))) = Inr ([1, 1] @ macB)"
    by (simp add: env0_def NDPRouterSolicit_Options_def ICMPv6_NDPPayload_def First_def
          inbound_def rsFromUnspecified_def size_defs)
  have src: "IPv6_SourceAddress (ipv6Header IPv6Any allRouters 255) = IPv6Any"
    by (simp add: IPv6_SourceAddress_def example_defs size_defs)
  show ?thesis
    unfolding handleICMP_RouterSolicit [OF reachesSwitch_rsFromUnspecified ty]
      caseRouterSolicit_eq [OF len nh gate fwd it] src
    by (simp add: options_one_source wellFormed_one_source EthernetAddress_macB route_def
          state0_def received_def)
qed

subsection \<open>C6: Malformed option areas\<close>

text \<open>
  C6. The claim fails on the code at a Router Solicitation from B whose option area
  is a Source Link-Layer Address option followed by an option of length zero. The
  first step of the iterator yields the option and \<open>HandleProbe\<close> is called with its
  address; the second step is malformed, and only then is the packet counted as
  \<open>Invalid\<close>. The probe has been made for a packet that is dropped.
\<close>

theorem router_solicit_malformed_tail_probed:
  "handleICMP env0 endpointA (route allRouters addrB) (ipv6Header addrB allRouters 255)
     (inbound rsFromBMalformedTail) False state0
   = Inr (received Invalid_update
            ((received RouterSolicit_update state0)
               \<lparr>calls := [HandleProbe addrB allRouters IPv6ProtocolNumber macB]\<rparr>))"
proof -
  have ty: "ICMPv6_Type (First (Data (inbound rsFromBMalformedTail))) = ICMPv6RouterSolicit"
    by (simp add: First_def example_defs ICMPv6_Type_def type_defs)
  have len: "ICMPv6MinimumSize \<le> length (First (Data (inbound rsFromBMalformedTail)))"
    by (simp add: First_def example_defs size_defs)
  have nh: "IPv6MinimumSize \<le> length (ipv6Header addrB allRouters 255)"
    by (simp add: example_defs size_defs)
  have gate: "isNDPValid False (ipv6Header addrB allRouters 255)
                (First (Data (inbound rsFromBMalformedTail)))"
    by (simp add: isNDPValid_def IPv6_HopLimit_def ICMPv6_Code_def NDPHopLimit_def First_def
          example_defs)
  have fwd: "Forwarding env0"
    by (simp add: env0_def)
  have it: "Iter env0 False (NDPRouterSolicit_Options
              (ICMPv6_NDPPayload (First (Data (inbound rsFromBMalformedTail)))))
            = Inr ([1, 1] @ macB @ [1, 0])"
    by (simp add: env0_def NDPRouterSolicit_Options_def ICMPv6_NDPPayload_def First_def
          inbound_def rsFromBMalformedTail_def size_defs)
  have src: "IPv6_SourceAddress (ipv6Header addrB allRouters 255) = addrB"
    by (simp add: IPv6_SourceAddress_def example_defs size_defs)
  show ?thesis
    unfolding handleICMP_RouterSolicit [OF reachesSwitch_rsFromBMalformedTail ty]
      caseRouterSolicit_eq [OF len nh gate fwd it] src
    by (simp add: options_malformed_tail not_wellFormed_malformed_tail EthernetAddress_macB
          route_def state0_def received_def)
qed

subsection \<open>C7: Router Advertisement sources\<close>



subsection \<open>C8: Echo\<close>

text \<open>
  C8. An Echo Request that reaches the switch (it then has the Echo minimum size) is
  answered by one \<open>WritePacket\<close> on the route, with the route's default TTL and the
  default TOS. The result is the given state with three changes: the received
  \<open>EchoRequest\<close> counter is one higher; the one call made is the \<open>WritePacket\<close>; and
  among the sent counters \<open>EchoReply\<close> is one higher when the write succeeded and
  \<open>Dropped\<close> is one higher when it failed. The header written is 8 bytes: the type is
  Echo Reply, bytes 4 to 7 (identifier and sequence number) are those of the request,
  and its checksum field is the checksum of the reply between the route's local and
  remote address, over the data sent with it. The data sent are the bytes that followed
  the first 8 of the request.
\<close>

theorem echo_request_replied:
  assumes "reachesSwitch netHeader pkt"
    and "ICMPv6_Type (First (Data pkt)) = ICMPv6EchoRequest"
    and "ICMPv6EchoMinimumSize \<le> length (First (Data pkt))"
    and "params = \<lparr>Protocol = ICMPv6ProtocolNumber, TTL = DefaultTTL r, TOS = DefaultTOS\<rparr>"
  shows "\<exists>out.
           handleICMP env e r netHeader pkt hasFragmentHeader st
             = Inr (st\<lparr>V6PacketsReceived :=
                          (V6PacketsReceived st)
                            \<lparr>EchoRequest := EchoRequest (V6PacketsReceived st) + 1\<rparr>,
                        calls := calls st @ [WritePacket r params out],
                        V6PacketsSent :=
                          (if WritePacket_err env r params out = None
                           then (V6PacketsSent st)
                                  \<lparr>EchoReply := EchoReply (V6PacketsSent st) + 1\<rparr>
                           else (V6PacketsSent st)
                                  \<lparr>Dropped := Dropped (V6PacketsSent st) + 1\<rparr>)\<rparr>)
           \<and> length (UsedBytes (Header out)) = ICMPv6EchoMinimumSize
           \<and> ICMPv6_Type (UsedBytes (Header out)) = ICMPv6EchoReply
           \<and> drop 4 (UsedBytes (Header out)) = take 4 (drop 4 (First (Data pkt)))
           \<and> concat (Data out) = drop ICMPv6EchoMinimumSize (concat (Data pkt))
           \<and> ICMPv6_Checksum (UsedBytes (Header out))
               = ICMPv6Checksum (UsedBytes (Header out)) (LocalAddress r) (RemoteAddress r)
                   (Data out)"
proof -
  define h where "h = First (Data pkt)"
  define data where "data = TrimFront ICMPv6EchoMinimumSize (Data pkt)"
  define p0 where "p0 = ICMPv6_SetType (take ICMPv6EchoMinimumSize h) ICMPv6EchoReply"
  define p where "p = ICMPv6_SetChecksum p0 (ICMPv6Checksum p0 (LocalAddress r) (RemoteAddress r) data)"
  define out where "out = \<lparr>Data = data,
      Header = withView \<lparr>buf = replicate (unat (MaxHeaderLength r) + ICMPv6EchoMinimumSize) 0,
                         usedIdx = unat (MaxHeaderLength r)\<rparr> p\<rparr>"
  have len: "ICMPv6EchoMinimumSize \<le> length h"
    using assms(3) by (simp add: h_def)
  have lp0: "length p0 = ICMPv6EchoMinimumSize"
    using len by (simp add: p0_def ICMPv6_SetType_def)
  have lp: "length p = ICMPv6EchoMinimumSize"
    by (simp add: p_def length_SetChecksum lp0)
  have used: "UsedBytes (Header out) = p"
    by (simp add: out_def UsedBytes_withView [OF lp])
  have written: "handleICMP env e r netHeader pkt hasFragmentHeader st
      = Inr (sent (if WritePacket_err env r params out = None
                   then EchoReply_update else Dropped_update)
              (call (WritePacket r params out) (received EchoRequest_update st)))"
    unfolding handleICMP_EchoRequest [OF assms(1,2)]
    by (rule caseEchoRequest_reply [OF len [unfolded h_def] data_def
          p0_def [unfolded h_def] p_def assms(4) out_def])
  have res: "handleICMP env e r netHeader pkt hasFragmentHeader st
      = Inr (st\<lparr>V6PacketsReceived :=
                   (V6PacketsReceived st)
                     \<lparr>EchoRequest := EchoRequest (V6PacketsReceived st) + 1\<rparr>,
                 calls := calls st @ [WritePacket r params out],
                 V6PacketsSent :=
                   (if WritePacket_err env r params out = None
                    then (V6PacketsSent st)\<lparr>EchoReply := EchoReply (V6PacketsSent st) + 1\<rparr>
                    else (V6PacketsSent st)\<lparr>Dropped := Dropped (V6PacketsSent st) + 1\<rparr>)\<rparr>)"
    unfolding written
    by (simp add: sent_def call_def received_def Increment_def)
  have ty: "ICMPv6_Type p = ICMPv6EchoReply"
    using len
    by (simp add: p_def p0_def ICMPv6_Type_def ICMPv6_SetChecksum_def ICMPv6_SetType_def
          ICMPv6EchoMinimumSize_def)
  have ident: "drop 4 p = take 4 (drop 4 h)"
    using len
    by (simp add: p_def p0_def ICMPv6_SetChecksum_def ICMPv6_SetType_def
          ICMPv6EchoMinimumSize_def drop_update_cancel drop_take)
  have payload: "concat (Data out) = drop ICMPv6EchoMinimumSize (concat (Data pkt))"
    by (simp add: out_def data_def concat_TrimFront)
  have cks: "ICMPv6_Checksum p = ICMPv6Checksum p (LocalAddress r) (RemoteAddress r) (Data out)"
    using lp0 unfolding p_def out_def
    by (simp add: checksum_of_own ICMPv6EchoMinimumSize_def)
  show ?thesis
    using res lp ty ident payload cks unfolding used [symmetric] h_def
    by (intro exI [of _ out] conjI)
qed

theorem echo_request_replied_witness:
  "reachesSwitch (ipv6Header addrB addrA 64) (inbound echoPing)
   \<and> ICMPv6_Type (First (Data (inbound echoPing))) = ICMPv6EchoRequest
   \<and> ICMPv6EchoMinimumSize \<le> length (First (Data (inbound echoPing)))
   \<and> (\<exists>out.
         handleICMP env0 endpointA (route addrA addrB) (ipv6Header addrB addrA 64)
             (inbound echoPing) False state0
           = Inr (state0\<lparr>V6PacketsReceived :=
                            (V6PacketsReceived state0)
                              \<lparr>EchoRequest := EchoRequest (V6PacketsReceived state0) + 1\<rparr>,
                          calls := calls state0
                            @ [WritePacket (route addrA addrB)
                                 \<lparr>Protocol = ICMPv6ProtocolNumber,
                                  TTL = DefaultTTL (route addrA addrB), TOS = DefaultTOS\<rparr> out],
                          V6PacketsSent :=
                            (if WritePacket_err env0 (route addrA addrB)
                                  \<lparr>Protocol = ICMPv6ProtocolNumber,
                                   TTL = DefaultTTL (route addrA addrB), TOS = DefaultTOS\<rparr> out
                                = None
                             then (V6PacketsSent state0)
                                    \<lparr>EchoReply := EchoReply (V6PacketsSent state0) + 1\<rparr>
                             else (V6PacketsSent state0)
                                    \<lparr>Dropped := Dropped (V6PacketsSent state0) + 1\<rparr>)\<rparr>)
         \<and> length (UsedBytes (Header out)) = ICMPv6EchoMinimumSize
         \<and> ICMPv6_Type (UsedBytes (Header out)) = ICMPv6EchoReply
         \<and> drop 4 (UsedBytes (Header out)) = take 4 (drop 4 (First (Data (inbound echoPing))))
         \<and> concat (Data out) = drop ICMPv6EchoMinimumSize (concat (Data (inbound echoPing)))
         \<and> ICMPv6_Checksum (UsedBytes (Header out))
             = ICMPv6Checksum (UsedBytes (Header out)) (LocalAddress (route addrA addrB))
                 (RemoteAddress (route addrA addrB)) (Data out))"
proof -
  note a = reachesSwitch_echoPing
  have b: "ICMPv6_Type (First (Data (inbound echoPing))) = ICMPv6EchoRequest"
    by (simp add: First_def example_defs ICMPv6_Type_def type_defs)
  have c: "ICMPv6EchoMinimumSize \<le> length (First (Data (inbound echoPing)))"
    by (simp add: First_def example_defs size_defs)
  show ?thesis
    by (rule conjI [OF a conjI [OF b conjI [OF c echo_request_replied [OF a b c refl]]]])
qed

subsection \<open>C9: Minimum sizes\<close>

text \<open>
  C9. A message shorter than the global minimum size, and a message shorter than the
  size the case of its type asks for: handleICMP returns with the received \<open>Invalid\<close>
  counter one higher, the sent counters as they were and no call made (nothing was
  read from the body, nothing was sent). The length is that of the first segment, which
  is what the source measures; it is at most the length of the whole message.
\<close>

theorem short_message_invalid:
  assumes "length (First (Data pkt)) < ICMPv6MinimumSize
           \<or> (IPv6MinimumSize \<le> length netHeader
              \<and> length (First (Data pkt)) < minimumSizeOf (ICMPv6_Type (First (Data pkt))))"
  shows "\<exists>st'. handleICMP env e r netHeader pkt hasFragmentHeader st = Inr st'
           \<and> Invalid (V6PacketsReceived st') = Invalid (V6PacketsReceived st) + 1
           \<and> V6PacketsSent st' = V6PacketsSent st
           \<and> calls st' = calls st"
proof (cases "length (First (Data pkt)) < ICMPv6MinimumSize")
  case True
  then show ?thesis
    by (simp add: handleICMP_def received_def Increment_def)
next
  case long: False
  with assms have nh: "IPv6MinimumSize \<le> length netHeader"
    and short: "length (First (Data pkt)) < minimumSizeOf (ICMPv6_Type (First (Data pkt)))"
    by auto
  show ?thesis
  proof (cases "checksumValid netHeader pkt")
    case False
    with long nh show ?thesis
      by (simp add: handleICMP_def checksumValid_def Let_def received_def Increment_def)
  next
    case True
    from long short short_types [of "length (First (Data pkt))" "ICMPv6_Type (First (Data pkt))"]
    consider
      (ns) "ICMPv6_Type (First (Data pkt)) = ICMPv6NeighborSolicit"
           "length (First (Data pkt)) < ICMPv6NeighborSolicitMinimumSize"
    | (na) "ICMPv6_Type (First (Data pkt)) = ICMPv6NeighborAdvert"
           "length (First (Data pkt)) < ICMPv6NeighborAdvertSize"
    | (ra) "ICMPv6_Type (First (Data pkt)) = ICMPv6RouterAdvert"
           "length (First (Data pkt)) < ICMPv6HeaderSize + NDPRAMinimumSize"
      by auto
    then show ?thesis
    proof cases
      case ns
      with long nh True show ?thesis
        by (simp add: handleICMP_def checksumValid_def Let_def caseNeighborSolicit_short
              type_defs received_def Increment_def)
    next
      case na
      with long nh True show ?thesis
        by (simp add: handleICMP_def checksumValid_def Let_def caseNeighborAdvert_short
              type_defs received_def Increment_def)
    next
      case ra
      with long nh True show ?thesis
        by (simp add: handleICMP_def checksumValid_def Let_def caseRouterAdvert_short
              type_defs received_def Increment_def)
    qed
  qed
qed

theorem short_message_invalid_witness:
  "length (First (Data (inbound [128, 0, 0]))) < ICMPv6MinimumSize
   \<and> (\<exists>st'. handleICMP env0 endpointA (route addrA addrB) (ipv6Header addrB addrA 64)
               (inbound [128, 0, 0]) False state0 = Inr st'
         \<and> Invalid (V6PacketsReceived st') = Invalid (V6PacketsReceived state0) + 1
         \<and> V6PacketsSent st' = V6PacketsSent state0
         \<and> calls st' = calls state0)
   \<and> IPv6MinimumSize \<le> length (ipv6Header addrB snmcA 255)
   \<and> length (First (Data (inbound nsShort)))
       < minimumSizeOf (ICMPv6_Type (First (Data (inbound nsShort))))
   \<and> (\<exists>st'. handleICMP env0 endpointA (route snmcA addrB) (ipv6Header addrB snmcA 255)
               (inbound nsShort) False state0 = Inr st'
         \<and> Invalid (V6PacketsReceived st') = Invalid (V6PacketsReceived state0) + 1
         \<and> V6PacketsSent st' = V6PacketsSent state0
         \<and> calls st' = calls state0)"
proof -
  have a: "length (First (Data (inbound [128, 0, 0]))) < ICMPv6MinimumSize"
    by (simp add: First_def inbound_def size_defs)
  have b: "IPv6MinimumSize \<le> length (ipv6Header addrB snmcA 255)"
    by (simp add: example_defs size_defs)
  have c: "length (First (Data (inbound nsShort)))
             < minimumSizeOf (ICMPv6_Type (First (Data (inbound nsShort))))"
    by (simp add: First_def example_defs minimumSizeOf_def ICMPv6_Type_def type_defs size_defs)
  show ?thesis
    by (rule conjI [OF a conjI [OF short_message_invalid [OF disjI1 [OF a]]
          conjI [OF b conjI [OF c short_message_invalid [OF disjI2 [OF conjI [OF b c]]]]]]])
qed

subsection \<open>C10: Control messages\<close>

text \<open>
  C10. handleControl changes nothing but the list of calls, and it adds a call (the
  delivery to the transport dispatcher) only when the quoted packet holds a whole IPv6
  header whose source address is the endpoint's own. When one of the two fails, the
  state is returned as it was given: no counter, \<open>Invalid\<close> included, has moved, and
  nothing was delivered. handleICMP reaches handleControl from two cases of its switch: a
  Packet Too Big message is counted and handed over as \<open>ControlPacketTooBig\<close> with the MTU
  of the message, and a Destination Unreachable message with code Port Unreachable is
  counted and handed over as \<open>ControlPortUnreachable\<close> with 0; in both the quoted packet is
  what follows the first 8 bytes of the message.
\<close>

theorem handleControl_delivers_only_own:
  "(calls (handleControl e typ extra pkt st) \<noteq> calls st
      \<longrightarrow> IPv6MinimumSize \<le> length (First (Data pkt))
          \<and> IPv6_SourceAddress (First (Data pkt)) = id_LocalAddress e)
   \<and> (length (First (Data pkt)) < IPv6MinimumSize
        \<or> IPv6_SourceAddress (First (Data pkt)) \<noteq> id_LocalAddress e
      \<longrightarrow> handleControl e typ extra pkt st = st)
   \<and> V6PacketsReceived (handleControl e typ extra pkt st) = V6PacketsReceived st
   \<and> V6PacketsSent (handleControl e typ extra pkt st) = V6PacketsSent st
   \<and> (reachesSwitch netHeader msg \<and> ICMPv6_Type (First (Data msg)) = ICMPv6PacketTooBig
      \<longrightarrow> handleICMP env e r netHeader msg hasFragmentHeader st
            = Inr (handleControl e ControlPacketTooBig
                     (calculateMTU env (ICMPv6_MTU (First (Data msg))))
                     (msg\<lparr>Data := TrimFront ICMPv6PacketTooBigMinimumSize (Data msg)\<rparr>)
                     (received PacketTooBig_update st)))
   \<and> (reachesSwitch netHeader msg \<and> ICMPv6_Type (First (Data msg)) = ICMPv6DstUnreachable
        \<and> ICMPv6_Code (First (Data msg)) = ICMPv6PortUnreachable
      \<longrightarrow> handleICMP env e r netHeader msg hasFragmentHeader st
            = Inr (handleControl e ControlPortUnreachable 0
                     (msg\<lparr>Data := TrimFront ICMPv6DstUnreachableMinimumSize (Data msg)\<rparr>)
                     (received DstUnreachable_update st)))"
proof -
  have a: "(calls (handleControl e typ extra pkt st) \<noteq> calls st
      \<longrightarrow> IPv6MinimumSize \<le> length (First (Data pkt))
          \<and> IPv6_SourceAddress (First (Data pkt)) = id_LocalAddress e)
   \<and> (length (First (Data pkt)) < IPv6MinimumSize
        \<or> IPv6_SourceAddress (First (Data pkt)) \<noteq> id_LocalAddress e
      \<longrightarrow> handleControl e typ extra pkt st = st)
   \<and> V6PacketsReceived (handleControl e typ extra pkt st) = V6PacketsReceived st
   \<and> V6PacketsSent (handleControl e typ extra pkt st) = V6PacketsSent st"
    by (auto simp: handleControl_def Let_def call_def)
  show ?thesis
    using a handleICMP_PacketTooBig [of netHeader msg env e r hasFragmentHeader st]
      handleICMP_PortUnreachable [of netHeader msg env e r hasFragmentHeader st]
    by blast
qed

theorem handleControl_delivers_only_own_witness:
  "calls (handleControl endpointA ControlPacketTooBig 1280 (inbound quotedFromA) state0)
     \<noteq> calls state0
   \<and> IPv6MinimumSize \<le> length (First (Data (inbound quotedFromA)))
   \<and> IPv6_SourceAddress (First (Data (inbound quotedFromA))) = id_LocalAddress endpointA
   \<and> IPv6_SourceAddress (First (Data (inbound quotedFromB))) \<noteq> id_LocalAddress endpointA
   \<and> handleControl endpointA ControlPacketTooBig 1280 (inbound quotedFromB) state0 = state0
   \<and> reachesSwitch (ipv6Header addrG addrA 64) (inbound packetTooBigQuotingA)
   \<and> ICMPv6_Type (First (Data (inbound packetTooBigQuotingA))) = ICMPv6PacketTooBig
   \<and> handleICMP env0 endpointA (route addrA addrG) (ipv6Header addrG addrA 64)
        (inbound packetTooBigQuotingA) False state0
      = Inr (handleControl endpointA ControlPacketTooBig
               (calculateMTU env0 (ICMPv6_MTU (First (Data (inbound packetTooBigQuotingA)))))
               ((inbound packetTooBigQuotingA)
                  \<lparr>Data := TrimFront ICMPv6PacketTooBigMinimumSize
                             (Data (inbound packetTooBigQuotingA))\<rparr>)
               (received PacketTooBig_update state0))
   \<and> reachesSwitch (ipv6Header addrG addrA 64) (inbound portUnreachableQuotingA)
   \<and> ICMPv6_Type (First (Data (inbound portUnreachableQuotingA))) = ICMPv6DstUnreachable
   \<and> ICMPv6_Code (First (Data (inbound portUnreachableQuotingA))) = ICMPv6PortUnreachable
   \<and> handleICMP env0 endpointA (route addrA addrG) (ipv6Header addrG addrA 64)
        (inbound portUnreachableQuotingA) False state0
      = Inr (handleControl endpointA ControlPortUnreachable 0
               ((inbound portUnreachableQuotingA)
                  \<lparr>Data := TrimFront ICMPv6DstUnreachableMinimumSize
                             (Data (inbound portUnreachableQuotingA))\<rparr>)
               (received DstUnreachable_update state0))"
proof -
  have a: "calls (handleControl endpointA ControlPacketTooBig 1280 (inbound quotedFromA) state0)
             \<noteq> calls state0"
    unfolding handleControl_def Let_def
    by (simp add: First_def example_defs size_defs IPv6_SourceAddress_def endpointA_def
          IPv6_TransportProtocol_def IPv6FragmentHeader_def call_def)
  have b: "IPv6_SourceAddress (First (Data (inbound quotedFromB))) \<noteq> id_LocalAddress endpointA"
    by (simp add: First_def example_defs size_defs IPv6_SourceAddress_def endpointA_def)
  note p1 = reachesSwitch_packetTooBigQuotingA
  have p2: "ICMPv6_Type (First (Data (inbound packetTooBigQuotingA))) = ICMPv6PacketTooBig"
    by (simp add: First_def inbound_def packetTooBigQuotingA_def ICMPv6_Type_def type_defs)
  note u1 = reachesSwitch_portUnreachableQuotingA
  have u2: "ICMPv6_Type (First (Data (inbound portUnreachableQuotingA))) = ICMPv6DstUnreachable"
    by (simp add: First_def inbound_def portUnreachableQuotingA_def ICMPv6_Type_def type_defs)
  have u3: "ICMPv6_Code (First (Data (inbound portUnreachableQuotingA))) = ICMPv6PortUnreachable"
    by (simp add: First_def inbound_def portUnreachableQuotingA_def ICMPv6_Code_def
          ICMPv6PortUnreachable_def)
  note t1 = handleControl_delivers_only_own
    [of endpointA ControlPacketTooBig 1280 "inbound quotedFromA" state0,
     THEN conjunct1, THEN mp, OF a]
  note t2 = handleControl_delivers_only_own
    [of endpointA ControlPacketTooBig 1280 "inbound quotedFromB" state0,
     THEN conjunct2, THEN conjunct1, THEN mp, OF disjI2 [OF b]]
  note t3 = handleControl_delivers_only_own
    [THEN conjunct2, THEN conjunct2, THEN conjunct2, THEN conjunct2, THEN conjunct1, THEN mp,
     OF conjI [OF p1 p2]]
  note t4 = handleControl_delivers_only_own
    [THEN conjunct2, THEN conjunct2, THEN conjunct2, THEN conjunct2, THEN conjunct2, THEN mp,
     OF conjI [OF u1 conjI [OF u2 u3]]]
  show ?thesis
    using a conjunct1 [OF t1] conjunct2 [OF t1] b t2 p1 p2 t3 u1 u2 u3 t4
    by (intro conjI)
qed

end
